theory Spec2Isabelle
  imports Main "HOL-Library.AList"
begin

section \<open>JavaScript values and \<open>JSON.parse\<close>\<close>

text \<open>
  The server is TypeScript. Values that come out of \<open>JSON.parse\<close> are untyped
  (\<open>any\<close>), so they are modelled by a datatype of JavaScript values. Strings are byte
  strings (the UTF-8 text of the file or frame). A number keeps its source text;
  whether the double it denotes is zero is computed from that text (below).
  \<open>JSON.parse\<close> follows the JSON grammar (ECMA-404): white space, the three
  literals, numbers, strings with escapes, arrays and objects; a repeated key keeps
  the value of its last occurrence, as a JavaScript object does. A four-digit
  hexadecimal escape is stored as the UTF-8 encoding of the code point it denotes,
  alone or with the escape that completes its surrogate pair.
  The recursion of the parser is bounded by a fuel of twice the length of the text
  plus two, which is enough (lemma \<open>JSON_parse_fuel\<close> below).
\<close>

datatype jsval =
    JUndefined
  | JNull
  | JBool bool
  | JNum string
  | JStr string
  | JArr "jsval list"
  | JObj "(string \<times> jsval) list"

datatype js_exn = SyntaxError | TypeError

definition is_ws :: "char \<Rightarrow> bool" where
  "is_ws c = (c = CHR 0x20 \<or> c = CHR 0x09 \<or> c = CHR 0x0A \<or> c = CHR 0x0D)"

definition skip_ws :: "string \<Rightarrow> string" where
  "skip_ws s = dropWhile is_ws s"

definition is_digit :: "char \<Rightarrow> bool" where
  "is_digit c = (c \<in> set ''0123456789'')"

definition hex_val :: "char \<Rightarrow> nat option" where
  "hex_val c = map_of (zip ''0123456789abcdefABCDEF''
                 [0,1,2,3,4,5,6,7,8,9,10,11,12,13,14,15,10,11,12,13,14,15]) c"

text \<open>The UTF-8 encoding of a code point.\<close>

definition utf8_of :: "nat \<Rightarrow> string" where
  "utf8_of n =
     (if n < 0x80 then [char_of n]
      else if n < 0x800 then [char_of (0xC0 + n div 64), char_of (0x80 + n mod 64)]
      else if n < 0x10000 then
        [char_of (0xE0 + n div 4096), char_of (0x80 + (n div 64) mod 64),
         char_of (0x80 + n mod 64)]
      else
        [char_of (0xF0 + n div 262144), char_of (0x80 + (n div 4096) mod 64),
         char_of (0x80 + (n div 64) mod 64), char_of (0x80 + n mod 64)])"

text \<open>
  The content of a string literal is collected as a list of units: a byte of the text
  (\<open>Inl\<close>) or the code unit of a four-digit hexadecimal escape (\<open>Inr\<close>). An escaped
  high surrogate followed by an escaped low surrogate is one code point, as in the
  JavaScript string; any other escaped unit is encoded by itself.
\<close>

fun encode_units :: "(char + nat) list \<Rightarrow> string" where
  "encode_units [] = []"
| "encode_units (Inl c # us) = c # encode_units us"
| "encode_units (Inr hi # Inr lo # us) =
     (if 0xD800 \<le> hi \<and> hi < 0xDC00 \<and> 0xDC00 \<le> lo \<and> lo < 0xE000
      then utf8_of (0x10000 + (hi - 0xD800) * 0x400 + (lo - 0xDC00)) @ encode_units us
      else utf8_of hi @ encode_units (Inr lo # us))"
| "encode_units (Inr u # us) = utf8_of u @ encode_units us"

definition unescape :: "char \<Rightarrow> char option" where
  "unescape e = map_of [(CHR 0x22, CHR 0x22), (CHR 0x5C, CHR 0x5C), (CHR ''/'', CHR ''/''),
      (CHR ''b'', CHR 0x08), (CHR ''f'', CHR 0x0C), (CHR ''n'', CHR 0x0A),
      (CHR ''r'', CHR 0x0D), (CHR ''t'', CHR 0x09)] e"

fun str_chars :: "(char + nat) list \<Rightarrow> string \<Rightarrow> (string \<times> string) option" where
  "str_chars acc [] = None"
| "str_chars acc (c # cs) =
     (if c = CHR 0x22 then Some (encode_units (rev acc), cs)
      else if c = CHR 0x5C then
        (case cs of
           [] \<Rightarrow> None
         | e # cs' \<Rightarrow>
             if e = CHR ''u'' then
               (case cs' of
                  a # b # c' # d # cs'' \<Rightarrow>
                    (case (hex_val a, hex_val b, hex_val c', hex_val d) of
                       (Some x3, Some x2, Some x1, Some x0) \<Rightarrow>
                         str_chars (Inr (((x3 * 16 + x2) * 16 + x1) * 16 + x0) # acc) cs''
                     | _ \<Rightarrow> None)
                | _ \<Rightarrow> None)
             else (case unescape e of None \<Rightarrow> None | Some d \<Rightarrow> str_chars (Inl d # acc) cs'))
      else if of_char c < (0x20 :: nat) then None
      else str_chars (Inl c # acc) cs)"

definition digits1 :: "string \<Rightarrow> (string \<times> string) option" where
  "digits1 s = (let ds = takeWhile is_digit s in
                 if ds = [] then None else Some (ds, dropWhile is_digit s))"

definition num_int :: "string \<Rightarrow> (string \<times> string) option" where
  "num_int s =
     (case s of
        [] \<Rightarrow> None
      | c # cs \<Rightarrow> if c = CHR ''0'' then Some ([c], cs)
                 else if is_digit c then Some (c # takeWhile is_digit cs, dropWhile is_digit cs)
                 else None)"

definition num_frac :: "string \<Rightarrow> (string \<times> string) option" where
  "num_frac s =
     (case s of
        c # cs \<Rightarrow> if c = CHR ''.''
                 then (case digits1 cs of None \<Rightarrow> None | Some (ds, r) \<Rightarrow> Some (c # ds, r))
                 else Some ([], s)
      | [] \<Rightarrow> Some ([], s))"

definition num_exp :: "string \<Rightarrow> (string \<times> string) option" where
  "num_exp s =
     (case s of
        c # cs \<Rightarrow>
          if c = CHR ''e'' \<or> c = CHR ''E'' then
            (case cs of
               g # cs' \<Rightarrow>
                 if g = CHR ''+'' \<or> g = CHR ''-''
                 then (case digits1 cs' of None \<Rightarrow> None | Some (ds, r) \<Rightarrow> Some (c # g # ds, r))
                 else (case digits1 cs of None \<Rightarrow> None | Some (ds, r) \<Rightarrow> Some (c # ds, r))
             | [] \<Rightarrow> None)
          else Some ([], s)
      | [] \<Rightarrow> Some ([], s))"

definition parse_number :: "string \<Rightarrow> (string \<times> string) option" where
  "parse_number s =
     (let (sg, s0) = (case s of c # cs \<Rightarrow> if c = CHR ''-'' then ([c], cs) else ([], s) | [] \<Rightarrow> ([], s))
      in case num_int s0 of
           None \<Rightarrow> None
         | Some (i, s1) \<Rightarrow>
             (case num_frac s1 of
                None \<Rightarrow> None
              | Some (f, s2) \<Rightarrow>
                  (case num_exp s2 of
                     None \<Rightarrow> None
                   | Some (e, s3) \<Rightarrow> Some (sg @ i @ f @ e, s3))))"

definition starts_with :: "string \<Rightarrow> string \<Rightarrow> bool" where
  "starts_with s p = (take (length p) s = p)"

fun parse_value :: "nat \<Rightarrow> string \<Rightarrow> (jsval \<times> string) option"
and parse_elems :: "nat \<Rightarrow> jsval list \<Rightarrow> string \<Rightarrow> (jsval \<times> string) option"
and parse_membs :: "nat \<Rightarrow> (string \<times> jsval) list \<Rightarrow> string \<Rightarrow> (jsval \<times> string) option"
where
  "parse_value 0 s = None"
| "parse_value (Suc n) s =
     (case s of
        [] \<Rightarrow> None
      | c # cs \<Rightarrow>
          if c = CHR ''{'' then
            (case skip_ws cs of
               [] \<Rightarrow> None
             | d # r \<Rightarrow> if d = CHR ''}'' then Some (JObj [], r) else parse_membs n [] (d # r))
          else if c = CHR ''['' then
            (case skip_ws cs of
               [] \<Rightarrow> None
             | d # r \<Rightarrow> if d = CHR '']'' then Some (JArr [], r) else parse_elems n [] (d # r))
          else if c = CHR 0x22 then
            (case str_chars [] cs of None \<Rightarrow> None | Some (t, r) \<Rightarrow> Some (JStr t, r))
          else if c = CHR ''-'' \<or> is_digit c then
            (case parse_number s of None \<Rightarrow> None | Some (l, r) \<Rightarrow> Some (JNum l, r))
          else if starts_with s ''true'' then Some (JBool True, drop 4 s)
          else if starts_with s ''false'' then Some (JBool False, drop 5 s)
          else if starts_with s ''null'' then Some (JNull, drop 4 s)
          else None)"
| "parse_elems 0 acc s = None"
| "parse_elems (Suc n) acc s =
     (case parse_value n s of
        None \<Rightarrow> None
      | Some (v, r) \<Rightarrow>
          (case skip_ws r of
             [] \<Rightarrow> None
           | c # r' \<Rightarrow>
               if c = CHR '','' then parse_elems n (v # acc) (skip_ws r')
               else if c = CHR '']'' then Some (JArr (rev (v # acc)), r')
               else None))"
| "parse_membs 0 acc s = None"
| "parse_membs (Suc n) acc s =
     (case s of
        [] \<Rightarrow> None
      | q # s1 \<Rightarrow>
          if q \<noteq> CHR 0x22 then None
          else
            (case str_chars [] s1 of
               None \<Rightarrow> None
             | Some (k, s2) \<Rightarrow>
                 (case skip_ws s2 of
                    [] \<Rightarrow> None
                  | c # s3 \<Rightarrow>
                      if c \<noteq> CHR '':'' then None
                      else
                        (case parse_value n (skip_ws s3) of
                           None \<Rightarrow> None
                         | Some (v, r) \<Rightarrow>
                             (case skip_ws r of
                                [] \<Rightarrow> None
                              | d # r' \<Rightarrow>
                                  if d = CHR '','' then
                                    parse_membs n (AList.update k v acc) (skip_ws r')
                                  else if d = CHR ''}'' then Some (JObj (AList.update k v acc), r')
                                  else None)))))"

definition JSON_parse :: "string \<Rightarrow> js_exn + jsval" where
  "JSON_parse s =
     (case parse_value (2 * length s + 2) (skip_ws s) of
        None \<Rightarrow> Inl SyntaxError
      | Some (v, r) \<Rightarrow> if skip_ws r = [] then Inr v else Inl SyntaxError)"

subsection \<open>Truthiness, property access, \<open>||\<close>\<close>

text \<open>
  The value of a number literal is \<open>m\<close> times ten to the \<open>e\<close>, where \<open>m\<close> is
  the integer written by its integer and fraction digits and \<open>e\<close> is its exponent
  less the number of fraction digits. \<open>JSON.parse\<close> rounds the value to the nearest
  double, ties to even; the result is zero exactly when the magnitude is at most two
  to the power -1075, half the least positive double. Zero (of either sign) is the
  only falsy number \<open>JSON.parse\<close> can give.
\<close>

definition digits_val :: "string \<Rightarrow> nat" where
  "digits_val ds = foldl (\<lambda>n c. 10 * n + (of_char c - of_char (CHR ''0''))) 0 ds"

definition num_mantissa :: "string \<Rightarrow> nat" where
  "num_mantissa l =
     (let l1 = (case l of c # cs \<Rightarrow> if c = CHR ''-'' then cs else l | [] \<Rightarrow> l);
          ip = takeWhile is_digit l1;
          fp = (case dropWhile is_digit l1 of
                  c # cs \<Rightarrow> if c = CHR ''.'' then takeWhile is_digit cs else []
                | [] \<Rightarrow> [])
      in digits_val (ip @ fp))"

definition num_exponent :: "string \<Rightarrow> int" where
  "num_exponent l =
     (let l1 = (case l of c # cs \<Rightarrow> if c = CHR ''-'' then cs else l | [] \<Rightarrow> l);
          r1 = dropWhile is_digit l1;
          fp = (case r1 of c # cs \<Rightarrow> if c = CHR ''.'' then takeWhile is_digit cs else [] | [] \<Rightarrow> []);
          r2 = (case r1 of c # cs \<Rightarrow> if c = CHR ''.'' then dropWhile is_digit cs else r1 | [] \<Rightarrow> []);
          ex = (case r2 of
                  [] \<Rightarrow> 0
                | c # cs \<Rightarrow>
                    (case cs of
                       [] \<Rightarrow> 0
                     | g # ds \<Rightarrow>
                         if g = CHR ''-'' then - int (digits_val ds)
                         else if g = CHR ''+'' then int (digits_val ds)
                         else int (digits_val cs)))
      in ex - int (length fp))"

definition double_is_zero :: "string \<Rightarrow> bool" where
  "double_is_zero l =
     (num_mantissa l = 0
      \<or> (num_exponent l < 0
          \<and> num_mantissa l * 2 ^ 1075 \<le> 10 ^ nat (- num_exponent l)))"

fun truthy :: "jsval \<Rightarrow> bool" where
  "truthy JUndefined = False"
| "truthy JNull = False"
| "truthy (JBool b) = b"
| "truthy (JNum l) = (\<not> double_is_zero l)"
| "truthy (JStr s) = (s \<noteq> [])"
| "truthy (JArr xs) = True"
| "truthy (JObj kvs) = True"

text \<open>
  \<open>v.k\<close>: reading a property of \<open>null\<close> or \<open>undefined\<close> throws a TypeError; an
  object gives its own property or \<open>undefined\<close>; any other value gives
  \<open>undefined\<close> for the property names this program reads (none of them is defined
  on a prototype).
\<close>

fun getProp :: "jsval \<Rightarrow> string \<Rightarrow> js_exn + jsval" where
  "getProp JUndefined k = Inl TypeError"
| "getProp JNull k = Inl TypeError"
| "getProp (JObj kvs) k = Inr (case map_of kvs k of None \<Rightarrow> JUndefined | Some v \<Rightarrow> v)"
| "getProp v k = Inr JUndefined"

definition js_or :: "jsval \<Rightarrow> jsval \<Rightarrow> jsval" where
  "js_or a b = (if truthy a then a else b)"

definition bind_exn :: "js_exn + 'a \<Rightarrow> ('a \<Rightarrow> js_exn + 'b) \<Rightarrow> js_exn + 'b" where
  "bind_exn r f = (case r of Inl e \<Rightarrow> Inl e | Inr v \<Rightarrow> f v)"

section \<open>FileStreamMonitor\<close>

text \<open>
  Times are milliseconds since the epoch (\<open>new Date()\<close>, \<open>Date.now()\<close>), passed in
  as \<open>now\<close>. A \<open>Map\<close> is an association list in insertion order
  (\<open>AList.update\<close> replaces in place or appends, as \<open>Map.set\<close> does). A file is
  its content, a byte string; \<open>stat\<close> gives the length, and a missing file makes
  \<open>stat\<close> throw. Handlers run one at a time, and the file does not change between
  the \<open>stat\<close> and the read of one handler.
\<close>

record ClaudeCodeMessage =
  m_parentUuid :: jsval
  m_sessionId :: jsval
  m_type :: jsval
  m_message :: jsval
  m_timestamp :: jsval
  m_cwd :: jsval

record SessionInfo =
  si_sessionId :: string
  si_projectPath :: string

datatype fsm_event =
    NewMessage ClaudeCodeMessage
  | ExistingMessage ClaudeCodeMessage
  | ParseError js_exn string string
  | SessionDiscovered string SessionInfo
  | SessionTerminated string SessionInfo string
  | SessionInactive string SessionInfo int
  | ErrorEvent

record FileStreamMonitor =
  claudeProjectsPath :: string
  filePositions :: "(string \<times> nat) list"
  lastActivity :: "(string \<times> int) list"

text \<open>The body of the \<open>try\<close> block of \<open>parseJSONLLine\<close>.\<close>

definition parseJSONLLine_try :: "string \<Rightarrow> js_exn + ClaudeCodeMessage option" where
  "parseJSONLLine_try line =
     bind_exn (JSON_parse line) (\<lambda>parsed.
     bind_exn (getProp parsed ''sessionId'') (\<lambda>sessionId.
     bind_exn (getProp parsed ''type'') (\<lambda>type.
     bind_exn (getProp parsed ''message'') (\<lambda>message.
     bind_exn (getProp parsed ''timestamp'') (\<lambda>timestamp.
       if \<not> truthy sessionId \<or> \<not> truthy type \<or> \<not> truthy message \<or> \<not> truthy timestamp
       then Inr None
       else
         bind_exn (getProp parsed ''parentUuid'') (\<lambda>parentUuid.
         bind_exn (getProp parsed ''cwd'') (\<lambda>cwd.
           Inr (Some \<lparr> m_parentUuid = js_or parentUuid (JStr ''''),
                       m_sessionId = sessionId,
                       m_type = type,
                       m_message = message,
                       m_timestamp = timestamp,
                       m_cwd = js_or cwd (JStr '''') \<rparr>))))))))"

text \<open>
  \<open>parseJSONLLine\<close>: the \<open>catch\<close> returns \<open>null\<close>. The result type keeps the
  exception channel (\<open>Inl\<close>), so that the \<open>catch\<close> of the caller has a branch in the
  model; \<open>Inr None\<close> is \<open>null\<close>.
\<close>

definition parseJSONLLine :: "string \<Rightarrow> string \<Rightarrow> js_exn + ClaudeCodeMessage option" where
  "parseJSONLLine line filePath =
     (case parseJSONLLine_try line of Inl e \<Rightarrow> Inr None | Inr r \<Rightarrow> Inr r)"

text \<open>
  \<open>readline\<close> with \<open>crlfDelay: Infinity\<close>: a line ends at LF, CR LF or CR; what is
  left at the end of the stream is a last line when it is not empty. (The Unicode
  line separators, which some versions of \<open>readline\<close> also take as line ends, are
  not modelled; neither is white space beyond ASCII in \<open>trim\<close>.)
\<close>

fun rl_lines :: "string \<Rightarrow> string \<Rightarrow> string list" where
  "rl_lines acc [] = (if acc = [] then [] else [rev acc])"
| "rl_lines acc (c # cs) =
     (if c = CHR 0x0A then rev acc # rl_lines [] cs
      else if c = CHR 0x0D then
        (case cs of
           [] \<Rightarrow> [rev acc]
         | d # ds \<Rightarrow> if d = CHR 0x0A then rev acc # rl_lines [] ds
                    else rev acc # rl_lines [] cs)
      else rl_lines (c # acc) cs)"

definition js_space :: "char \<Rightarrow> bool" where
  "js_space c = (c \<in> set [CHR 0x09, CHR 0x0A, CHR 0x0B, CHR 0x0C, CHR 0x0D, CHR 0x20])"

text \<open>\<open>line.trim()\<close> is truthy when the line has a character that is not white space.\<close>

definition trim_truthy :: "string \<Rightarrow> bool" where
  "trim_truthy line = list_ex (\<lambda>c. \<not> js_space c) line"

text \<open>
  The body of the \<open>for await\<close> loops of \<open>readExistingContent\<close> and
  \<open>readNewContent\<close>, which differ in the event they emit.
\<close>

definition read_line :: "(ClaudeCodeMessage \<Rightarrow> fsm_event) \<Rightarrow> string \<Rightarrow> string \<Rightarrow> fsm_event list" where
  "read_line emit_message filePath line =
     (if trim_truthy line then
        (case parseJSONLLine line filePath of
           Inl e \<Rightarrow> [ParseError e line filePath]
         | Inr None \<Rightarrow> []
         | Inr (Some message) \<Rightarrow> [emit_message message])
      else [])"

definition readExistingContent :: "string \<Rightarrow> string \<Rightarrow> fsm_event list" where
  "readExistingContent filePath content =
     concat (map (read_line ExistingMessage filePath) (rl_lines [] content))"

definition readNewContent :: "string \<Rightarrow> string \<Rightarrow> nat \<Rightarrow> fsm_event list" where
  "readNewContent filePath content startPosition =
     concat (map (read_line NewMessage filePath) (rl_lines [] (drop startPosition content)))"

text \<open>
  \<open>path.basename(filePath, '.jsonl')\<close> and
  \<open>path.dirname(path.relative(root, filePath))\<close> on POSIX paths. \<open>path.relative\<close>
  resolves both paths (empty and \<open>.\<close> segments are dropped, \<open>..\<close> removes the
  segment before it), drops the segments they share, and climbs out of what is left
  of the first with \<open>..\<close>. Both paths are absolute, or both relative to the working
  directory without leaving it.
\<close>

fun split_path :: "string \<Rightarrow> string \<Rightarrow> string list" where
  "split_path seg [] = [rev seg]"
| "split_path seg (c # cs) =
     (if c = CHR ''/'' then rev seg # split_path [] cs else split_path (c # seg) cs)"

fun resolve_segments :: "string list \<Rightarrow> string list \<Rightarrow> string list" where
  "resolve_segments done [] = rev done"
| "resolve_segments done (seg # segs) =
     (if seg = [] \<or> seg = ''.'' then resolve_segments done segs
      else if seg = ''..'' then resolve_segments (drop 1 done) segs
      else resolve_segments (seg # done) segs)"

fun drop_common :: "string list \<Rightarrow> string list \<Rightarrow> string list \<times> string list" where
  "drop_common (a # as) (b # bs) = (if a = b then drop_common as bs else (a # as, b # bs))"
| "drop_common as bs = (as, bs)"

fun join_path :: "string list \<Rightarrow> string" where
  "join_path [] = []"
| "join_path [seg] = seg"
| "join_path (seg # segs) = seg @ ''/'' @ join_path segs"

definition ends_with :: "string \<Rightarrow> string \<Rightarrow> bool" where
  "ends_with s x = (length x \<le> length s \<and> drop (length s - length x) s = x)"

definition basename :: "string \<Rightarrow> string \<Rightarrow> string" where
  "basename p ext =
     (let b = rev (takeWhile (\<lambda>c. c \<noteq> CHR ''/'') (rev p))
      in if ends_with b ext \<and> b \<noteq> ext then take (length b - length ext) b else b)"

definition dirname :: "string \<Rightarrow> string" where
  "dirname p =
     (let d = rev (drop 1 (dropWhile (\<lambda>c. c \<noteq> CHR ''/'') (rev p)))
      in if d = [] then ''.'' else d)"

definition relative :: "string \<Rightarrow> string \<Rightarrow> string" where
  "relative base target =
     (let (up, down) = drop_common (resolve_segments [] (split_path [] base))
                         (resolve_segments [] (split_path [] target))
      in join_path (map (\<lambda>seg. ''..'') up @ down))"

definition extractSessionInfo :: "FileStreamMonitor \<Rightarrow> string \<Rightarrow> SessionInfo" where
  "extractSessionInfo st filePath =
     \<lparr> si_sessionId = basename filePath ''.jsonl'',
       si_projectPath = dirname (relative (claudeProjectsPath st) filePath) \<rparr>"

definition handleFileAdded ::
  "FileStreamMonitor \<Rightarrow> string \<Rightarrow> string option \<Rightarrow> FileStreamMonitor \<times> fsm_event list" where
  "handleFileAdded st filePath file =
     (case file of
        None \<Rightarrow> (st, [ErrorEvent])
      | Some content \<Rightarrow>
          (st\<lparr>filePositions := AList.update filePath (length content) (filePositions st)\<rparr>,
           SessionDiscovered filePath (extractSessionInfo st filePath)
             # (if length content > 0 then readExistingContent filePath content else [])))"

definition handleFileChanged ::
  "FileStreamMonitor \<Rightarrow> int \<Rightarrow> string \<Rightarrow> string option \<Rightarrow> FileStreamMonitor \<times> fsm_event list" where
  "handleFileChanged st now filePath file =
     (let currentPosition = (case map_of (filePositions st) filePath of None \<Rightarrow> 0 | Some p \<Rightarrow> p)
      in case file of
           None \<Rightarrow> (st, [ErrorEvent])
         | Some content \<Rightarrow>
             (let st1 = st\<lparr>lastActivity := AList.update filePath now (lastActivity st)\<rparr>
              in if length content < currentPosition then
                   (st1\<lparr>filePositions := AList.update filePath 0 (filePositions st1)\<rparr>,
                    readNewContent filePath content 0)
                 else if length content > currentPosition then
                   (st1\<lparr>filePositions :=
                          AList.update filePath (length content) (filePositions st1)\<rparr>,
                    readNewContent filePath content currentPosition)
                 else (st1, [])))"

definition handleFileRemoved ::
  "FileStreamMonitor \<Rightarrow> string \<Rightarrow> FileStreamMonitor \<times> fsm_event list" where
  "handleFileRemoved st filePath =
     (st\<lparr>filePositions := AList.delete filePath (filePositions st),
         lastActivity := AList.delete filePath (lastActivity st)\<rparr>,
      [SessionTerminated filePath (extractSessionInfo st filePath) ''file_removed''])"

text \<open>
  One run of the interval callback of \<open>startInactivityMonitoring\<close> (every 60000 ms):
  the loop over the entries of \<open>lastActivity\<close>, deleting the entries it reports.
\<close>

definition inactiveThreshold :: int where
  "inactiveThreshold = 10 * 60 * 1000"

fun inactivity_loop ::
  "FileStreamMonitor \<Rightarrow> int \<Rightarrow> (string \<times> int) list \<Rightarrow> FileStreamMonitor \<times> fsm_event list" where
  "inactivity_loop st now [] = (st, [])"
| "inactivity_loop st now ((filePath, la) # rest) =
     (if now - la > inactiveThreshold then
        (let (st', evs) =
               inactivity_loop (st\<lparr>lastActivity := AList.delete filePath (lastActivity st)\<rparr>)
                 now rest
         in (st', SessionInactive filePath (extractSessionInfo st filePath) la # evs))
      else inactivity_loop st now rest)"

definition inactivityTick :: "FileStreamMonitor \<Rightarrow> int \<Rightarrow> FileStreamMonitor \<times> fsm_event list" where
  "inactivityTick st now = inactivity_loop st now (lastActivity st)"

text \<open>
  A log file under observation: the watcher reports a change after each write, and the
  handler sees the content of the file at that moment. \<open>changes\<close> runs
  \<open>handleFileChanged\<close> on the successive contents; \<open>appends\<close> gives the contents
  after each of a sequence of appended chunks; \<open>delivered\<close> keeps the records handed
  on as \<open>newMessage\<close>.
\<close>

fun changes ::
  "FileStreamMonitor \<Rightarrow> int \<Rightarrow> string \<Rightarrow> string list \<Rightarrow> FileStreamMonitor \<times> fsm_event list" where
  "changes st now filePath [] = (st, [])"
| "changes st now filePath (content # rest) =
     (let (st1, evs1) = handleFileChanged st now filePath (Some content);
          (st2, evs2) = changes st1 now filePath rest
      in (st2, evs1 @ evs2))"

fun appends :: "string \<Rightarrow> string list \<Rightarrow> string list" where
  "appends content [] = []"
| "appends content (chunk # chunks) = (content @ chunk) # appends (content @ chunk) chunks"

fun delivered :: "fsm_event list \<Rightarrow> ClaudeCodeMessage list" where
  "delivered [] = []"
| "delivered (NewMessage m # evs) = m # delivered evs"
| "delivered (e # evs) = delivered evs"

definition parseErrors :: "fsm_event list \<Rightarrow> fsm_event list" where
  "parseErrors evs = filter (\<lambda>e. case e of ParseError x l p \<Rightarrow> True | _ \<Rightarrow> False) evs"

definition monitor0 :: FileStreamMonitor where
  "monitor0 = \<lparr> claudeProjectsPath = ''/root'', filePositions = [], lastActivity = [] \<rparr>"

text \<open>
  The required fields as the specification words them, with "RFC 3339 instant" weakened
  to "nonempty string" (every RFC 3339 instant is one): \<open>sessionId\<close> a nonempty string,
  \<open>type\<close> and \<open>message.role\<close> one of \<open>user\<close> and \<open>assistant\<close>,
  \<open>message.content\<close> a string.
\<close>

definition is_nonempty_str :: "jsval \<Rightarrow> bool" where
  "is_nonempty_str v = (case v of JStr s \<Rightarrow> s \<noteq> [] | _ \<Rightarrow> False)"

definition is_str :: "jsval \<Rightarrow> bool" where
  "is_str v = (case v of JStr s \<Rightarrow> True | _ \<Rightarrow> False)"

definition is_role :: "jsval \<Rightarrow> bool" where
  "is_role v = (v = JStr ''user'' \<or> v = JStr ''assistant'')"

definition field :: "jsval \<Rightarrow> string \<Rightarrow> jsval" where
  "field v k = (case getProp v k of Inl e \<Rightarrow> JUndefined | Inr x \<Rightarrow> x)"

definition spec_required_fields :: "jsval \<Rightarrow> bool" where
  "spec_required_fields v =
     (is_nonempty_str (field v ''sessionId'') \<and> is_role (field v ''type'')
      \<and> is_role (field (field v ''message'') ''role'')
      \<and> is_str (field (field v ''message'') ''content'')
      \<and> is_nonempty_str (field v ''timestamp''))"

text \<open>
  \<open>JSONLParser.isValidClaudeCodeMessage\<close>, the validation of the repository's other
  line parser (\<open>JSONLParser.parseLine\<close>), which the monitor does not call. The
  \<open>&&\<close> chain is read for its truthiness.
\<close>

definition isValidClaudeCodeMessage :: "jsval \<Rightarrow> bool" where
  "isValidClaudeCodeMessage obj =
     (truthy obj
      \<and> is_str (field obj ''sessionId'')
      \<and> (field obj ''type'' = JStr ''user'' \<or> field obj ''type'' = JStr ''assistant'')
      \<and> truthy (field obj ''message'')
      \<and> is_str (field (field obj ''message'') ''role'')
      \<and> is_str (field (field obj ''message'') ''content'')
      \<and> is_str (field obj ''timestamp''))"

subsection \<open>Sample log lines\<close>

definition log_path :: string where
  "log_path = ''/root/proj/S1.jsonl''"

definition line_one :: string where
  \<open>line_one = ''{"sessionId":"S1","type":"user","message":{"role":"user","content":"one"},"timestamp":"2025-09-14T15:04:35.357Z"}''\<close>

definition line_two :: string where
  \<open>line_two = ''{"sessionId":"S1","type":"assistant","message":{"role":"assistant","content":"two"},"timestamp":"2025-09-14T15:04:36.000Z"}''\<close>

definition line_three :: string where
  \<open>line_three = ''{"sessionId":"S1","type":"user","message":{"role":"user","content":"three"},"timestamp":"2025-09-14T15:05:00.000Z"}''\<close>

definition line_four :: string where
  \<open>line_four = ''{"sessionId":"S1","type":"assistant","message":{"role":"assistant","content":"four"},"timestamp":"2025-09-14T15:05:01.000Z"}''\<close>

definition line_lenient :: string where
  \<open>line_lenient = ''{"sessionId":42,"type":"system","message":"x","timestamp":"yesterday"}''\<close>

definition json_lenient :: jsval where
  "json_lenient = JObj [(''sessionId'', JNum ''42''), (''type'', JStr ''system''),
     (''message'', JStr ''x''), (''timestamp'', JStr ''yesterday'')]"

definition line_system :: string where
  \<open>line_system = ''{"sessionId":"S1","type":"system","message":{"role":"system","content":"note"},"timestamp":"2025-09-14T15:06:00.000Z"}''\<close>

definition json_system :: jsval where
  "json_system = JObj [(''sessionId'', JStr ''S1''), (''type'', JStr ''system''),
     (''message'', JObj [(''role'', JStr ''system''), (''content'', JStr ''note'')]),
     (''timestamp'', JStr ''2025-09-14T15:06:00.000Z'')]"

definition sample :: "string \<Rightarrow> string \<Rightarrow> string \<Rightarrow> ClaudeCodeMessage" where
  "sample role content ts =
     \<lparr> m_parentUuid = JStr '''', m_sessionId = JStr ''S1'', m_type = JStr role,
       m_message = JObj [(''role'', JStr role), (''content'', JStr content)],
       m_timestamp = JStr ts, m_cwd = JStr '''' \<rparr>"

definition msg_one :: ClaudeCodeMessage where
  "msg_one = sample ''user'' ''one'' ''2025-09-14T15:04:35.357Z''"

definition msg_two :: ClaudeCodeMessage where
  "msg_two = sample ''assistant'' ''two'' ''2025-09-14T15:04:36.000Z''"

definition msg_three :: ClaudeCodeMessage where
  "msg_three = sample ''user'' ''three'' ''2025-09-14T15:05:00.000Z''"

definition msg_four :: ClaudeCodeMessage where
  "msg_four = sample ''assistant'' ''four'' ''2025-09-14T15:05:01.000Z''"

definition nl :: string where
  "nl = [CHR 0x0A]"

text \<open>The monitor after the watcher has reported the empty log file.\<close>

definition monitor1 :: FileStreamMonitor where
  "monitor1 = fst (handleFileAdded monitor0 log_path (Some []))"

definition json_one :: jsval where
  "json_one = JObj [(''sessionId'', JStr ''S1''), (''type'', JStr ''user''),
     (''message'', JObj [(''role'', JStr ''user''), (''content'', JStr ''one'')]),
     (''timestamp'', JStr ''2025-09-14T15:04:35.357Z'')]"

section \<open>AuthenticationService and the pairing route\<close>

text \<open>
  The random draws (\<open>crypto.randomUUID\<close>, \<open>crypto.randomBytes\<close>) are parameters of
  the operations that make them. The events the service emits are appended to
  \<open>auth_emitted\<close>. The version string read from \<open>package.json\<close> is a field.
\<close>

record GuestToken =
  gt_token :: string
  gt_expires :: int
  gt_deviceId :: "string option"
  gt_used :: bool
  gt_createdAt :: int

record ApiKey =
  k_key :: string
  k_deviceId :: string
  k_createdAt :: int
  k_expiresAt :: int
  k_lastUsed :: "int option"
  k_revoked :: bool

record AuthenticationOptions =
  qrTokenTTL :: int
  apiKeyTTL :: int
  baseUrl :: string
  cleanupInterval :: int

datatype auth_event =
    QrGenerated string int
  | QrGenerationFailed
  | AuthenticationFailed string string
  | DeviceAuthenticated string string int
  | ApiKeyRefreshed string string int
  | ApiKeyRevoked string string int
  | TokensCleanedUp nat string

record AuthenticationService =
  guestTokens :: "(string \<times> GuestToken) list"
  apiKeys :: "(string \<times> ApiKey) list"
  options :: AuthenticationOptions
  packageVersion :: string
  auth_emitted :: "auth_event list"

text \<open>\<open>x || d\<close> on an optional number: \<open>undefined\<close> and \<open>0\<close> give the default.\<close>

definition num_or :: "int option \<Rightarrow> int \<Rightarrow> int" where
  "num_or x d = (case x of None \<Rightarrow> d | Some v \<Rightarrow> if v = 0 then d else v)"

definition str_or :: "string option \<Rightarrow> string \<Rightarrow> string" where
  "str_or x d = (case x of None \<Rightarrow> d | Some v \<Rightarrow> if v = [] then d else v)"

definition new_AuthenticationService ::
  "int option \<Rightarrow> int option \<Rightarrow> string option \<Rightarrow> int option \<Rightarrow> string \<Rightarrow> AuthenticationService" where
  "new_AuthenticationService qr ak base cleanup version =
     \<lparr> guestTokens = [], apiKeys = [],
       options = \<lparr> qrTokenTTL = num_or qr (30 * 1000),
                   apiKeyTTL = num_or ak (30 * 24 * 60 * 60 * 1000),
                   baseUrl = str_or base ''http://localhost:3000'',
                   cleanupInterval = num_or cleanup (60 * 1000) \<rparr>,
       packageVersion = version,
       auth_emitted = [] \<rparr>"

definition emit_auth :: "auth_event \<Rightarrow> AuthenticationService \<Rightarrow> AuthenticationService" where
  "emit_auth e a = a\<lparr>auth_emitted := auth_emitted a @ [e]\<rparr>"

definition generateGuestToken :: "AuthenticationService \<Rightarrow> int \<Rightarrow> string \<Rightarrow> GuestToken" where
  "generateGuestToken a now token =
     \<lparr> gt_token = token, gt_expires = now + qrTokenTTL (options a), gt_deviceId = None,
       gt_used = False, gt_createdAt = now \<rparr>"

definition generateApiKey :: "AuthenticationService \<Rightarrow> int \<Rightarrow> string \<Rightarrow> string \<Rightarrow> ApiKey" where
  "generateApiKey a now key deviceId =
     \<lparr> k_key = key, k_deviceId = deviceId, k_createdAt = now,
       k_expiresAt = now + apiKeyTTL (options a), k_lastUsed = None, k_revoked = False \<rparr>"

text \<open>
  \<open>generateAuthQR\<close>; \<open>qr_ok\<close> says whether the QR rendering library succeeded. The
  result is the guest token, or the error thrown.
\<close>

definition generateAuthQR ::
  "AuthenticationService \<Rightarrow> int \<Rightarrow> string \<Rightarrow> bool \<Rightarrow> string option \<times> AuthenticationService" where
  "generateAuthQR a now token qr_ok =
     (let guestToken = generateGuestToken a now token
      in if qr_ok then
           (Some (gt_token guestToken),
            emit_auth (QrGenerated (gt_token guestToken) (qrTokenTTL (options a)))
              (a\<lparr>guestTokens := AList.update (gt_token guestToken) guestToken (guestTokens a)\<rparr>))
         else (None, emit_auth QrGenerationFailed a))"

datatype auth_error = Invalid_guest_token | Guest_token_already_used | Guest_token_expired

fun error_message :: "auth_error \<Rightarrow> string" where
  "error_message Invalid_guest_token = ''Invalid guest token''"
| "error_message Guest_token_already_used = ''Guest token already used''"
| "error_message Guest_token_expired = ''Guest token expired''"

fun str_includes :: "string \<Rightarrow> string \<Rightarrow> bool" where
  "str_includes [] sub = (sub = [])"
| "str_includes (c # cs) sub = (take (length sub) (c # cs) = sub \<or> str_includes cs sub)"

fun replace_first :: "string \<Rightarrow> string \<Rightarrow> string \<Rightarrow> string" where
  "replace_first [] pat rep = (if pat = [] then rep else [])"
| "replace_first (c # cs) pat rep =
     (if take (length pat) (c # cs) = pat then rep @ drop (length pat) (c # cs)
      else c # replace_first cs pat rep)"

record ServerInfo =
  si_version :: string
  si_features :: "string list"
  si_protocol :: string
  si_websocketUrl :: string

definition authenticateMobile ::
  "AuthenticationService \<Rightarrow> int \<Rightarrow> string \<Rightarrow> string \<Rightarrow> string
     \<Rightarrow> (auth_error + string \<times> ServerInfo) \<times> AuthenticationService" where
  "authenticateMobile a now newKey guestToken deviceId =
     (case map_of (guestTokens a) guestToken of
        None \<Rightarrow>
          (Inl Invalid_guest_token,
           emit_auth (AuthenticationFailed ''invalid_token'' guestToken) a)
      | Some token \<Rightarrow>
          if gt_used token then
            (Inl Guest_token_already_used,
             emit_auth (AuthenticationFailed ''token_already_used'' guestToken) a)
          else if now > gt_expires token then
            (Inl Guest_token_expired,
             emit_auth (AuthenticationFailed ''token_expired'' guestToken)
               (a\<lparr>guestTokens := AList.delete guestToken (guestTokens a)\<rparr>))
          else
            (let token' = token\<lparr>gt_used := True, gt_deviceId := Some deviceId\<rparr>;
                 a1 = a\<lparr>guestTokens := AList.update guestToken token' (guestTokens a)\<rparr>;
                 apiKey = generateApiKey a1 now newKey deviceId;
                 a2 = a1\<lparr>apiKeys := AList.update (k_key apiKey) apiKey (apiKeys a1)\<rparr>;
                 a3 = a2\<lparr>guestTokens := AList.delete guestToken (guestTokens a2)\<rparr>;
                 serverInfo = \<lparr> si_version = packageVersion a3,
                     si_features = [''session_monitoring'', ''real_time_streaming'',
                                    ''state_detection''],
                     si_protocol = ''Claude Code Monitor Protocol v1.0'',
                     si_websocketUrl = replace_first (baseUrl (options a3)) ''http'' ''ws'' \<rparr>
             in (Inr (k_key apiKey, serverInfo),
                 emit_auth (DeviceAuthenticated deviceId (k_key apiKey) (k_expiresAt apiKey)) a3)))"

definition revokeApiKey ::
  "AuthenticationService \<Rightarrow> int \<Rightarrow> string \<Rightarrow> bool \<times> AuthenticationService" where
  "revokeApiKey a now apiKey =
     (case map_of (apiKeys a) apiKey of
        None \<Rightarrow> (False, a)
      | Some key \<Rightarrow>
          (True,
           emit_auth (ApiKeyRevoked (k_deviceId key) (k_key key) now)
             (a\<lparr>apiKeys := AList.update apiKey (key\<lparr>k_revoked := True\<rparr>) (apiKeys a)\<rparr>)))"

definition validateApiKey ::
  "AuthenticationService \<Rightarrow> int \<Rightarrow> string \<Rightarrow> bool \<times> AuthenticationService" where
  "validateApiKey a now apiKey =
     (case map_of (apiKeys a) apiKey of
        None \<Rightarrow> (False, a)
      | Some key \<Rightarrow>
          if k_revoked key then (False, a)
          else if now > k_expiresAt key then (False, snd (revokeApiKey a now apiKey))
          else (True, a\<lparr>apiKeys := AList.update apiKey (key\<lparr>k_lastUsed := Some now\<rparr>) (apiKeys a)\<rparr>))"

definition refreshApiKey ::
  "AuthenticationService \<Rightarrow> int \<Rightarrow> string \<Rightarrow> (string \<times> int) option \<times> AuthenticationService" where
  "refreshApiKey a now apiKey =
     (case map_of (apiKeys a) apiKey of
        None \<Rightarrow> (None, a)
      | Some key \<Rightarrow>
          if k_revoked key \<or> now > k_expiresAt key then (None, a)
          else
            (let key' = key\<lparr>k_expiresAt := now + apiKeyTTL (options a), k_lastUsed := Some now\<rparr>
             in (Some (k_key key', k_expiresAt key'),
                 emit_auth (ApiKeyRefreshed (k_deviceId key') (k_key key') (k_expiresAt key'))
                   (a\<lparr>apiKeys := AList.update apiKey key' (apiKeys a)\<rparr>))))"

text \<open>The two sweeps of the cleanup timer.\<close>

definition cleanupExpiredTokens :: "AuthenticationService \<Rightarrow> int \<Rightarrow> AuthenticationService" where
  "cleanupExpiredTokens a now =
     (let kept = filter (\<lambda>(t, g). \<not> now > gt_expires g) (guestTokens a);
          cleanedCount = length (guestTokens a) - length kept;
          a' = a\<lparr>guestTokens := kept\<rparr>
      in if cleanedCount > 0 then emit_auth (TokensCleanedUp cleanedCount ''guest_tokens'') a'
         else a')"

definition cleanupExpiredApiKeys :: "AuthenticationService \<Rightarrow> int \<Rightarrow> AuthenticationService" where
  "cleanupExpiredApiKeys a now =
     (let kept = filter (\<lambda>(k, c). \<not> now > k_expiresAt c) (apiKeys a);
          cleanedCount = length (apiKeys a) - length kept;
          a' = a\<lparr>apiKeys := kept\<rparr>
      in if cleanedCount > 0 then emit_auth (TokensCleanedUp cleanedCount ''api_keys'') a'
         else a')"

text \<open>
  \<open>POST /api/auth/mobile\<close> of \<open>createAuthRoutes\<close>. The two body fields are strings or
  absent; the response is the status code and the body.
\<close>

datatype http_body =
    MobileOk string ServerInfo
  | Failure string string

definition route_mobile ::
  "AuthenticationService \<Rightarrow> int \<Rightarrow> string \<Rightarrow> string option \<Rightarrow> string option
     \<Rightarrow> (nat \<times> http_body) \<times> AuthenticationService" where
  "route_mobile a now newKey body_guestToken body_deviceId =
     (case (body_guestToken, body_deviceId) of
        (Some guestToken, Some deviceId) \<Rightarrow>
          if guestToken = [] \<or> deviceId = [] then
            ((400, Failure ''Missing required fields'' ''guestToken and deviceId are required''),
             a)
          else
            (case authenticateMobile a now newKey guestToken deviceId of
               (Inr (apiKey, serverInfo), a') \<Rightarrow> ((200, MobileOk apiKey serverInfo), a')
             | (Inl e, a') \<Rightarrow>
                 (let statusCode =
                        (if str_includes (error_message e) ''Invalid'' then 401
                         else if str_includes (error_message e) ''expired'' then 410
                         else if str_includes (error_message e) ''used'' then 409
                         else 500)
                  in ((statusCode, Failure ''Authentication failed'' (error_message e)), a')))
      | _ \<Rightarrow>
          ((400, Failure ''Missing required fields'' ''guestToken and deviceId are required''),
           a))"

subsection \<open>The pairing scenario\<close>

definition auth0 :: AuthenticationService where
  "auth0 = new_AuthenticationService None None None None ''1.0.0''"

text \<open>A token \<open>T1\<close> is issued at time 0.\<close>

definition auth1 :: AuthenticationService where
  "auth1 = snd (generateAuthQR auth0 0 ''T1'' True)"

text \<open>It is redeemed by device \<open>D1\<close> at time 1000; the key drawn is \<open>K1\<close>.\<close>

definition auth2 :: AuthenticationService where
  "auth2 = snd (route_mobile auth1 1000 ''K1'' (Some ''T1'') (Some ''D1''))"

definition cred_K1 :: ApiKey where
  "cred_K1 = \<lparr> k_key = ''K1'', k_deviceId = ''D1'', k_createdAt = 1000,
                k_expiresAt = 2592001000, k_lastUsed = None, k_revoked = False \<rparr>"

text \<open>The credential \<open>K1\<close> after an explicit revocation at time 5000.\<close>

definition auth2_revoked :: AuthenticationService where
  "auth2_revoked = snd (revokeApiKey auth2 5000 ''K1'')"

section \<open>WebSocketServer\<close>

text \<open>
  A client's socket is modelled by \<open>c_open\<close> (its \<open>readyState\<close> is \<open>OPEN\<close>), and
  \<open>socket.send\<close> on an open socket succeeds; the frames written are appended to
  \<open>sent\<close>, each with the id of the client it goes to. A \<open>Set\<close> of client ids is
  a list in insertion order. The fields of a client message that the handlers read
  (\<open>payload.apiKey\<close>, \<open>payload.sessionId\<close>) are strings or absent, and
  \<open>payload.forceTakeover === true\<close> is a boolean. A payload is a list of named
  values; \<open>PTime t\<close> is the string \<open>new Date(t).toISOString()\<close>, and a property
  whose value is \<open>undefined\<close> (\<open>PJs JUndefined\<close>, or an absent entry) is left
  out by \<open>JSON.stringify\<close>.
\<close>

datatype pval =
    PStr string
  | PBool bool
  | PTime int
  | PJs jsval
  | PObj "(string \<times> pval) list"

record WebSocketMessage =
  w_type :: string
  w_payload :: "(string \<times> pval) list"
  w_timestamp :: int

record WebSocketClient =
  c_id :: string
  c_open :: bool
  c_sessionId :: "string option"
  c_lastPing :: int
  c_authenticated :: bool
  c_apiKey :: "string option"
  c_deviceId :: "string option"

datatype ws_event =
    ClientConnected string "string option" "string option"
  | ClientDisconnected string "string option"
  | ClientAuthenticated string string
  | ClientSubscribed string string bool
  | ClientUnsubscribed string string
  | ClientForcedUnsubscribe string string string

record WebSocketServer =
  pingInterval :: int
  connectionTimeout :: int
  clients :: "(string \<times> WebSocketClient) list"
  sessionClients :: "(string \<times> string list) list"
  authService :: "AuthenticationService option"
  sent :: "(string \<times> WebSocketMessage) list"
  ws_emitted :: "ws_event list"

definition new_WebSocketServer :: "int option \<Rightarrow> int option \<Rightarrow> WebSocketServer" where
  "new_WebSocketServer ping timeout =
     \<lparr> pingInterval = num_or ping 30000, connectionTimeout = num_or timeout 60000,
       clients = [], sessionClients = [], authService = None, sent = [], ws_emitted = [] \<rparr>"

definition setAuthService :: "WebSocketServer \<Rightarrow> AuthenticationService \<Rightarrow> WebSocketServer" where
  "setAuthService s a = s\<lparr>authService := Some a\<rparr>"

definition emit_ws :: "ws_event \<Rightarrow> WebSocketServer \<Rightarrow> WebSocketServer" where
  "emit_ws e s = s\<lparr>ws_emitted := ws_emitted s @ [e]\<rparr>"

definition sendToClient ::
  "WebSocketServer \<Rightarrow> string \<Rightarrow> WebSocketMessage \<Rightarrow> bool \<times> WebSocketServer" where
  "sendToClient s clientId message =
     (case map_of (clients s) clientId of
        None \<Rightarrow> (False, s)
      | Some client \<Rightarrow>
          if \<not> c_open client then (False, s)
          else (True, s\<lparr>sent := sent s @ [(clientId, message)]\<rparr>))"

definition sendError :: "WebSocketServer \<Rightarrow> int \<Rightarrow> string \<Rightarrow> string \<Rightarrow> WebSocketServer" where
  "sendError s now clientId err =
     snd (sendToClient s clientId
       \<lparr> w_type = ''error'',
         w_payload = [(''error'', PStr err), (''timestamp'', PTime now)],
         w_timestamp = now \<rparr>)"

text \<open>
  \<open>validateApiKey\<close> of the server: without an injected authentication service any
  nonempty string is accepted; with one, its \<open>validateApiKey\<close> decides (and records
  the use).
\<close>

definition ws_validateApiKey ::
  "WebSocketServer \<Rightarrow> int \<Rightarrow> string option \<Rightarrow> bool \<times> WebSocketServer" where
  "ws_validateApiKey s now apiKey =
     (case authService s of
        None \<Rightarrow> (case apiKey of None \<Rightarrow> (False, s) | Some k \<Rightarrow> (length k > 0, s))
      | Some a \<Rightarrow>
          (case apiKey of
             None \<Rightarrow> (False, s)
           | Some k \<Rightarrow>
               (let (ok, a') = validateApiKey a now k in (ok, s\<lparr>authService := Some a'\<rparr>))))"

definition isAuthenticated ::
  "WebSocketServer \<Rightarrow> int \<Rightarrow> WebSocketClient \<Rightarrow> bool \<times> WebSocketServer" where
  "isAuthenticated s now client =
     (case c_apiKey client of
        None \<Rightarrow> (False, s)
      | Some k \<Rightarrow> ws_validateApiKey s now (Some k))"

definition addClientToSession :: "WebSocketServer \<Rightarrow> string \<Rightarrow> string \<Rightarrow> WebSocketServer" where
  "addClientToSession s clientId sessionId =
     (let cs = (case map_of (sessionClients s) sessionId of None \<Rightarrow> [] | Some cs \<Rightarrow> cs)
      in s\<lparr>sessionClients :=
             AList.update sessionId (if clientId \<in> set cs then cs else cs @ [clientId])
               (sessionClients s)\<rparr>)"

definition removeClientFromSession :: "WebSocketServer \<Rightarrow> string \<Rightarrow> string \<Rightarrow> WebSocketServer" where
  "removeClientFromSession s clientId sessionId =
     (case map_of (sessionClients s) sessionId of
        None \<Rightarrow> s
      | Some cs \<Rightarrow>
          (let cs' = removeAll clientId cs
           in if cs' = [] then s\<lparr>sessionClients := AList.delete sessionId (sessionClients s)\<rparr>
              else s\<lparr>sessionClients := AList.update sessionId cs' (sessionClients s)\<rparr>))"

definition getSessionClients :: "WebSocketServer \<Rightarrow> string \<Rightarrow> string list" where
  "getSessionClients s sessionId =
     (case map_of (sessionClients s) sessionId of None \<Rightarrow> [] | Some cs \<Rightarrow> cs)"

definition set_client :: "WebSocketServer \<Rightarrow> string \<Rightarrow> WebSocketClient \<Rightarrow> WebSocketServer" where
  "set_client s clientId client = s\<lparr>clients := AList.update clientId client (clients s)\<rparr>"

definition msg_connected :: "int \<Rightarrow> string \<Rightarrow> WebSocketMessage" where
  "msg_connected now clientId =
     \<lparr> w_type = ''connected'',
       w_payload = [(''clientId'', PStr clientId), (''serverTime'', PTime now)],
       w_timestamp = now \<rparr>"

text \<open>
  \<open>handleConnection\<close>: \<open>clientId\<close> is the id drawn for the connection,
  \<open>q_sessionId\<close> and \<open>q_apiKey\<close> are the query parameters of the request URL
  (\<open>None\<close> when absent). \<open>handleConnection_accept\<close> is the handler up to and
  including the emission of \<open>clientConnected\<close>; the welcome message follows it.
\<close>

definition handleConnection_accept ::
  "WebSocketServer \<Rightarrow> int \<Rightarrow> string \<Rightarrow> string option \<Rightarrow> string option \<Rightarrow> WebSocketServer" where
  "handleConnection_accept s now clientId q_sessionId q_apiKey =
     (let sessionId = (case q_sessionId of None \<Rightarrow> None | Some x \<Rightarrow> if x = [] then None else Some x);
          apiKey = (case q_apiKey of None \<Rightarrow> None | Some x \<Rightarrow> if x = [] then None else Some x);
          client = \<lparr> c_id = clientId, c_open = True, c_sessionId = sessionId, c_lastPing = now,
                     c_authenticated = False, c_apiKey = apiKey, c_deviceId = None \<rparr>;
          s1 = set_client s clientId client;
          s2 = (case sessionId of
                  None \<Rightarrow> s1
                | Some sid \<Rightarrow>
                    (let (ok, s') = isAuthenticated s1 now client
                     in if ok then addClientToSession s' clientId sid else s'))
      in emit_ws (ClientConnected clientId q_sessionId q_apiKey) s2)"

definition handleConnection ::
  "WebSocketServer \<Rightarrow> int \<Rightarrow> string \<Rightarrow> string option \<Rightarrow> string option \<Rightarrow> WebSocketServer" where
  "handleConnection s now clientId q_sessionId q_apiKey =
     snd (sendToClient (handleConnection_accept s now clientId q_sessionId q_apiKey) clientId
            (msg_connected now clientId))"

definition handleDisconnection :: "WebSocketServer \<Rightarrow> string \<Rightarrow> WebSocketServer" where
  "handleDisconnection s clientId =
     (case map_of (clients s) clientId of
        None \<Rightarrow> s
      | Some client \<Rightarrow>
          (let s1 = (case c_sessionId client of
                       None \<Rightarrow> s
                     | Some sid \<Rightarrow> if sid = [] then s else removeClientFromSession s clientId sid);
               s2 = s1\<lparr>clients := AList.delete clientId (clients s1)\<rparr>
           in emit_ws (ClientDisconnected clientId (c_sessionId client)) s2))"

definition handlePong :: "WebSocketServer \<Rightarrow> int \<Rightarrow> string \<Rightarrow> WebSocketServer" where
  "handlePong s now clientId =
     (case map_of (clients s) clientId of
        None \<Rightarrow> s
      | Some client \<Rightarrow> set_client s clientId (client\<lparr>c_lastPing := now\<rparr>))"

text \<open>
  One run of the interval callback of \<open>startPingInterval\<close>: a client whose last pong
  is older than \<open>connectionTimeout\<close> is closed and disconnected; any other client
  with an open socket is sent a protocol-level ping, which is no message frame.
\<close>

fun ping_loop ::
  "WebSocketServer \<Rightarrow> int \<Rightarrow> (string \<times> WebSocketClient) list \<Rightarrow> WebSocketServer" where
  "ping_loop s now [] = s"
| "ping_loop s now ((clientId, client) # rest) =
     (if now - c_lastPing client > connectionTimeout s
      then ping_loop (handleDisconnection s clientId) now rest
      else ping_loop s now rest)"

definition pingTick :: "WebSocketServer \<Rightarrow> int \<Rightarrow> WebSocketServer" where
  "pingTick s now = ping_loop s now (clients s)"

text \<open>
  \<open>handleAuthentication\<close>. An absent \<open>payload.apiKey\<close> never validates, so the
  valid branch has the key at hand.
\<close>

definition handleAuthentication ::
  "WebSocketServer \<Rightarrow> int \<Rightarrow> string \<Rightarrow> string option \<Rightarrow> WebSocketServer" where
  "handleAuthentication s now clientId payload_apiKey =
     (case map_of (clients s) clientId of
        None \<Rightarrow> s
      | Some client \<Rightarrow>
          (let (isValid, s1) = ws_validateApiKey s now payload_apiKey
           in case (isValid, payload_apiKey) of
                (True, Some k) \<Rightarrow>
                  (let s2 = set_client s1 clientId
                              (client\<lparr>c_authenticated := True, c_apiKey := Some k\<rparr>);
                       s3 = snd (sendToClient s2 clientId
                              \<lparr> w_type = ''authenticated'',
                                w_payload = [(''success'', PBool True)],
                                w_timestamp = now \<rparr>)
                   in emit_ws (ClientAuthenticated clientId k) s3)
              | _ \<Rightarrow>
                  snd (sendToClient s1 clientId
                    \<lparr> w_type = ''authentication_failed'',
                      w_payload = [(''error'', PStr ''Invalid API key'')],
                      w_timestamp = now \<rparr>)))"

definition msg_session_occupied :: "int \<Rightarrow> string \<Rightarrow> string \<Rightarrow> WebSocketMessage" where
  "msg_session_occupied now sessionId existingViewer =
     \<lparr> w_type = ''session_occupied'',
       w_payload =
         [(''sessionId'', PStr sessionId),
          (''existingViewer'', PStr existingViewer),
          (''message'', PStr ''Session already has an active viewer. Use forceTakeover to disconnect existing viewer.''),
          (''canTakeOver'', PBool True)],
       w_timestamp = now \<rparr>"

definition msg_session_taken_over :: "int \<Rightarrow> string \<Rightarrow> string \<Rightarrow> WebSocketMessage" where
  "msg_session_taken_over now sessionId newViewer =
     \<lparr> w_type = ''session_taken_over'',
       w_payload =
         [(''sessionId'', PStr sessionId),
          (''newViewer'', PStr newViewer),
          (''message'', PStr ''Session viewing has been taken over by another device'')],
       w_timestamp = now \<rparr>"

definition msg_subscribed :: "int \<Rightarrow> string \<Rightarrow> bool option \<Rightarrow> WebSocketMessage" where
  "msg_subscribed now sessionId tookOver =
     \<lparr> w_type = ''subscribed'',
       w_payload =
         (''sessionId'', PStr sessionId)
           # (case tookOver of None \<Rightarrow> [] | Some b \<Rightarrow> [(''tookOver'', PBool b)]),
       w_timestamp = now \<rparr>"

text \<open>
  The body of the takeover loop of \<open>handleSubscription\<close> for one existing client id;
  \<open>client\<close> is the subscribing client.
\<close>

definition takeover_one ::
  "int \<Rightarrow> string \<Rightarrow> WebSocketClient \<Rightarrow> string \<Rightarrow> WebSocketServer \<Rightarrow> string \<Rightarrow> WebSocketServer" where
  "takeover_one now clientId client sessionId s existingClientId =
     (case map_of (clients s) existingClientId of
        None \<Rightarrow> s
      | Some existingClient \<Rightarrow>
          (let s1 = snd (sendToClient s existingClientId
                      (msg_session_taken_over now sessionId
                         (case c_apiKey client of None \<Rightarrow> ''Another device'' | Some k \<Rightarrow> k)));
               s2 = removeClientFromSession s1 existingClientId sessionId;
               s3 = (if c_sessionId existingClient = Some sessionId
                     then set_client s2 existingClientId (existingClient\<lparr>c_sessionId := None\<rparr>)
                     else s2)
           in emit_ws (ClientForcedUnsubscribe existingClientId sessionId clientId) s3))"

record subscribe_payload =
  p_sessionId :: "string option"
  p_forceTakeover :: bool

text \<open>The end of \<open>handleSubscription\<close>, from "Subscribe new client" on.\<close>

definition subscribe_new_client ::
  "WebSocketServer \<Rightarrow> int \<Rightarrow> string \<Rightarrow> string \<Rightarrow> bool \<Rightarrow> bool option \<Rightarrow> WebSocketServer" where
  "subscribe_new_client s now clientId sessionId forceTakeover tookOver =
     (let s1 = addClientToSession s clientId sessionId;
          s2 = (case map_of (clients s1) clientId of
                  None \<Rightarrow> s1
                | Some c \<Rightarrow> set_client s1 clientId (c\<lparr>c_sessionId := Some sessionId\<rparr>));
          s3 = snd (sendToClient s2 clientId (msg_subscribed now sessionId tookOver))
      in emit_ws (ClientSubscribed clientId sessionId forceTakeover) s3)"

text \<open>
  \<open>handleSubscription\<close>. \<open>tookOver\<close> is
  \<open>forceTakeover && existingClients && existingClients.size > 0\<close>, read after the
  loop and after the new client was added: \<open>existingClients\<close> is then the set object
  fetched at the start, which is empty when the loop removed its last member (the
  entry was deleted, and the new client went into a fresh set) and holds the new
  client otherwise.
\<close>

definition handleSubscription ::
  "WebSocketServer \<Rightarrow> int \<Rightarrow> string \<Rightarrow> subscribe_payload \<Rightarrow> WebSocketServer" where
  "handleSubscription s now clientId payload =
     (case map_of (clients s) clientId of
        None \<Rightarrow> sendError s now clientId ''Authentication required''
      | Some client \<Rightarrow>
          if \<not> c_authenticated client then sendError s now clientId ''Authentication required''
          else
            (case p_sessionId payload of
               None \<Rightarrow> sendError s now clientId ''Session ID required''
             | Some sessionId \<Rightarrow>
                 if sessionId = [] then sendError s now clientId ''Session ID required''
                 else
                   (let forceTakeover = p_forceTakeover payload
                    in case map_of (sessionClients s) sessionId of
                         None \<Rightarrow>
                           subscribe_new_client s now clientId sessionId forceTakeover
                             (if forceTakeover then None else Some False)
                       | Some [] \<Rightarrow>
                           subscribe_new_client s now clientId sessionId forceTakeover
                             (Some forceTakeover)
                       | Some (e # es) \<Rightarrow>
                           if \<not> forceTakeover then
                             snd (sendToClient s clientId
                               (msg_session_occupied now sessionId
                                  (case map_of (clients s) e of
                                     None \<Rightarrow> ''Unknown device''
                                   | Some existingClient \<Rightarrow>
                                       (case c_deviceId existingClient of
                                          None \<Rightarrow> ''Unknown device''
                                        | Some d \<Rightarrow> d))))
                           else
                             (let s1 = foldl (takeover_one now clientId client sessionId) s (e # es)
                              in subscribe_new_client s1 now clientId sessionId forceTakeover
                                   (Some (map_of (sessionClients s1) sessionId \<noteq> None))))))"

definition handleUnsubscription ::
  "WebSocketServer \<Rightarrow> int \<Rightarrow> string \<Rightarrow> string option \<Rightarrow> WebSocketServer" where
  "handleUnsubscription s now clientId payload_sessionId =
     (case map_of (clients s) clientId of
        None \<Rightarrow> s
      | Some client \<Rightarrow>
          (let sessionId =
                 (case payload_sessionId of
                    None \<Rightarrow> c_sessionId client
                  | Some x \<Rightarrow> if x = [] then c_sessionId client else Some x)
           in case sessionId of
                None \<Rightarrow> s
              | Some sid \<Rightarrow>
                  if sid = [] then s
                  else
                    (let s1 = removeClientFromSession s clientId sid;
                         s2 = set_client s1 clientId (client\<lparr>c_sessionId := None\<rparr>);
                         s3 = snd (sendToClient s2 clientId
                                \<lparr> w_type = ''unsubscribed'',
                                  w_payload = [(''sessionId'', PStr sid)],
                                  w_timestamp = now \<rparr>)
                     in emit_ws (ClientUnsubscribed clientId sid) s3)))"

text \<open>
  A \<open>SessionMessage\<close>, and \<open>broadcastToSession\<close>, which wraps it in a
  \<open>session_message\<close> frame for every client in the session's set. The session id is
  a JavaScript value (it may come from a parsed record); the keys of
  \<open>sessionClients\<close> are strings, so only a string finds an entry.
\<close>

record SessionMessage =
  sm_type :: string
  sm_timestamp :: pval
  sm_sessionId :: jsval
  sm_data :: "(string \<times> pval) list"

definition wrap_session_message :: "int \<Rightarrow> SessionMessage \<Rightarrow> WebSocketMessage" where
  "wrap_session_message now message =
     \<lparr> w_type = ''session_message'',
       w_payload =
         [(''type'', PStr (sm_type message)),
          (''timestamp'', sm_timestamp message),
          (''sessionId'', PJs (sm_sessionId message)),
          (''data'', PObj (sm_data message))],
       w_timestamp = now \<rparr>"

fun broadcast_loop ::
  "WebSocketServer \<Rightarrow> WebSocketMessage \<Rightarrow> string list \<Rightarrow> nat \<times> WebSocketServer" where
  "broadcast_loop s wsMessage [] = (0, s)"
| "broadcast_loop s wsMessage (clientId # rest) =
     (let (ok, s1) = sendToClient s clientId wsMessage;
          (n, s2) = broadcast_loop s1 wsMessage rest
      in ((if ok then 1 else 0) + n, s2))"

definition broadcastToSession ::
  "WebSocketServer \<Rightarrow> int \<Rightarrow> jsval \<Rightarrow> SessionMessage \<Rightarrow> nat \<times> WebSocketServer" where
  "broadcastToSession s now sessionId message =
     (case sessionId of
        JStr sid \<Rightarrow>
          (case map_of (sessionClients s) sid of
             None \<Rightarrow> (0, s)
           | Some cs \<Rightarrow> broadcast_loop s (wrap_session_message now message) cs)
      | _ \<Rightarrow> (0, s))"

definition broadcast :: "WebSocketServer \<Rightarrow> WebSocketMessage \<Rightarrow> nat \<times> WebSocketServer" where
  "broadcast s message = broadcast_loop s message (map fst (clients s))"

text \<open>
  Whether a frame for a client id is written: the client is in \<open>clients\<close> and its
  socket is open. \<open>session_frames\<close> are the frames one \<open>broadcastToSession\<close> writes.
\<close>

definition live_open :: "WebSocketServer \<Rightarrow> string \<Rightarrow> bool" where
  "live_open s clientId =
     (case map_of (clients s) clientId of None \<Rightarrow> False | Some client \<Rightarrow> c_open client)"

definition session_frames ::
  "WebSocketServer \<Rightarrow> int \<Rightarrow> jsval \<Rightarrow> SessionMessage \<Rightarrow> (string \<times> WebSocketMessage) list" where
  "session_frames s now sessionId message =
     (case sessionId of
        JStr sid \<Rightarrow>
          map (\<lambda>c. (c, wrap_session_message now message))
            (filter (live_open s) (getSessionClients s sid))
      | _ \<Rightarrow> [])"

section \<open>ConnectionManager\<close>

text \<open>
  The manager holds references to the WebSocket server and the file monitor; its
  handlers take and return the server's state beside its own. \<open>setTimeout\<close> calls
  are recorded in \<open>cm_timers\<close> with the time at which they are due.
\<close>

record ActiveSession =
  as_lastActivity :: int
  as_clients :: "string list"

datatype cm_event =
    CmClientConnected string
  | CmClientSubscribed string string
  | CmMessageForwarded jsval ClaudeCodeMessage nat
  | CmSessionDiscovered string
  | CmSessionTerminated string
  | CmSessionInactive string
  | CmSessionTimeout string
  | CmClientDisconnected string
  | CmClientUnsubscribed string string

record ConnectionManager =
  maxClientsPerSession :: nat
  sessionTimeout :: int
  activeSessions :: "(string \<times> ActiveSession) list"
  cm_timers :: "(int \<times> string \<times> WebSocketMessage) list"
  cm_emitted :: "cm_event list"

definition nat_or :: "nat option \<Rightarrow> nat \<Rightarrow> nat" where
  "nat_or x d = (case x of None \<Rightarrow> d | Some v \<Rightarrow> if v = 0 then d else v)"

definition new_ConnectionManager :: "nat option \<Rightarrow> int option \<Rightarrow> ConnectionManager" where
  "new_ConnectionManager maxClients timeout =
     \<lparr> maxClientsPerSession = nat_or maxClients 1,
       sessionTimeout = num_or timeout 300000,
       activeSessions = [], cm_timers = [], cm_emitted = [] \<rparr>"

definition emit_cm :: "cm_event \<Rightarrow> ConnectionManager \<Rightarrow> ConnectionManager" where
  "emit_cm e m = m\<lparr>cm_emitted := cm_emitted m @ [e]\<rparr>"

definition sendSessionHistory ::
  "ConnectionManager \<Rightarrow> WebSocketServer \<Rightarrow> int \<Rightarrow> string \<Rightarrow> string
     \<Rightarrow> ConnectionManager \<times> WebSocketServer" where
  "sendSessionHistory m s now clientId sessionId =
     (let s1 = snd (sendToClient s clientId
                  \<lparr> w_type = ''session_history_start'',
                    w_payload = [(''sessionId'', PStr sessionId)],
                    w_timestamp = now \<rparr>)
      in (m\<lparr>cm_timers := cm_timers m @
              [(now + 100, clientId,
                \<lparr> w_type = ''session_history_end'',
                  w_payload = [(''sessionId'', PStr sessionId)],
                  w_timestamp = now + 100 \<rparr>)]\<rparr>,
          s1))"

definition handleClientSubscribed ::
  "ConnectionManager \<Rightarrow> WebSocketServer \<Rightarrow> int \<Rightarrow> string \<Rightarrow> string
     \<Rightarrow> ConnectionManager \<times> WebSocketServer" where
  "handleClientSubscribed m s now clientId sessionId =
     (if length (getSessionClients s sessionId) > maxClientsPerSession m then
        (m, snd (sendToClient s clientId
              \<lparr> w_type = ''error'',
                w_payload = [(''error'', PStr ''Session viewer limit reached'')],
                w_timestamp = now \<rparr>))
      else
        (let session = (case map_of (activeSessions m) sessionId of
                          None \<Rightarrow> \<lparr> as_lastActivity = now, as_clients = [] \<rparr>
                        | Some x \<Rightarrow> x);
             session' = session\<lparr>as_clients :=
                          (if clientId \<in> set (as_clients session) then as_clients session
                           else as_clients session @ [clientId])\<rparr>;
             m1 = m\<lparr>activeSessions := AList.update sessionId session' (activeSessions m)\<rparr>;
             (m2, s2) = sendSessionHistory m1 s now clientId sessionId
         in (emit_cm (CmClientSubscribed clientId sessionId) m2, s2)))"

text \<open>
  \<open>broadcastSessionState\<close>: the state is \<open>idle\<close> for an empty list of recent
  messages, \<open>working\<close> when the type of the last one is \<open>user\<close>, and \<open>waiting\<close>
  otherwise.
\<close>

definition session_state :: "ClaudeCodeMessage list \<Rightarrow> string" where
  "session_state recentMessages =
     (if length recentMessages > 0 then
        (if m_type (last recentMessages) = JStr ''user'' then ''working'' else ''waiting'')
      else ''idle'')"

definition state_message :: "int \<Rightarrow> jsval \<Rightarrow> ClaudeCodeMessage list \<Rightarrow> SessionMessage" where
  "state_message now sessionId recentMessages =
     \<lparr> sm_type = ''state'',
       sm_timestamp = PTime now,
       sm_sessionId = sessionId,
       sm_data =
         [(''state'', PStr (session_state recentMessages)),
          (''lastActivity'',
           (if length recentMessages > 0 then PJs (m_timestamp (last recentMessages))
            else PTime now))] \<rparr>"

definition broadcastSessionState ::
  "WebSocketServer \<Rightarrow> int \<Rightarrow> jsval \<Rightarrow> ClaudeCodeMessage list \<Rightarrow> WebSocketServer" where
  "broadcastSessionState s now sessionId recentMessages =
     snd (broadcastToSession s now sessionId (state_message now sessionId recentMessages))"

text \<open>
  The \<open>SessionMessage\<close> of a forwarded record. \<open>message.message.content\<close> is read
  from a truthy \<open>message.message\<close> (the monitor emits no other), so the read does not
  throw.
\<close>

definition record_message :: "ClaudeCodeMessage \<Rightarrow> bool \<Rightarrow> SessionMessage" where
  "record_message message historical =
     \<lparr> sm_type = ''message'',
       sm_timestamp = PJs (m_timestamp message),
       sm_sessionId = m_sessionId message,
       sm_data =
         [(''messageType'', PJs (m_type message)),
          (''content'', PJs (field (m_message message) ''content'')),
          (''parentUuid'', PJs (m_parentUuid message))]
         @ (if historical then [(''historical'', PBool True)] else []) \<rparr>"

definition touch_session :: "ConnectionManager \<Rightarrow> int \<Rightarrow> jsval \<Rightarrow> ConnectionManager" where
  "touch_session m now sessionId =
     (case sessionId of
        JStr sid \<Rightarrow>
          (case map_of (activeSessions m) sid of
             None \<Rightarrow> m
           | Some session \<Rightarrow>
               m\<lparr>activeSessions :=
                    AList.update sid (session\<lparr>as_lastActivity := now\<rparr>) (activeSessions m)\<rparr>)
      | _ \<Rightarrow> m)"

definition handleNewMessage ::
  "ConnectionManager \<Rightarrow> WebSocketServer \<Rightarrow> int \<Rightarrow> ClaudeCodeMessage
     \<Rightarrow> ConnectionManager \<times> WebSocketServer" where
  "handleNewMessage m s now message =
     (let sessionId = m_sessionId message;
          m1 = touch_session m now sessionId;
          (sentCount, s1) = broadcastToSession s now sessionId (record_message message False);
          m2 = emit_cm (CmMessageForwarded sessionId message sentCount) m1
      in (m2, broadcastSessionState s1 now sessionId [message]))"

definition handleExistingMessage ::
  "ConnectionManager \<Rightarrow> WebSocketServer \<Rightarrow> int \<Rightarrow> ClaudeCodeMessage
     \<Rightarrow> ConnectionManager \<times> WebSocketServer" where
  "handleExistingMessage m s now message =
     (m, snd (broadcastToSession s now (m_sessionId message) (record_message message True)))"

definition inactivity_message :: "int \<Rightarrow> SessionInfo \<Rightarrow> string \<Rightarrow> int \<Rightarrow> SessionMessage" where
  "inactivity_message now sessionInfo reason la =
     \<lparr> sm_type = ''inactivity'',
       sm_timestamp = PTime now,
       sm_sessionId = JStr (si_sessionId sessionInfo),
       sm_data =
         [(''reason'',
           PStr (if reason = ''inactivity_timeout''
                 then ''Session inactive for more than 10 minutes'' else reason)),
          (''lastActivity'', PTime la),
          (''projectPath'', PStr (si_projectPath sessionInfo))] \<rparr>"

definition handleSessionInactive ::
  "ConnectionManager \<Rightarrow> WebSocketServer \<Rightarrow> int \<Rightarrow> SessionInfo \<Rightarrow> string \<Rightarrow> int
     \<Rightarrow> ConnectionManager \<times> WebSocketServer" where
  "handleSessionInactive m s now sessionInfo reason la =
     (let sessionId = si_sessionId sessionInfo;
          m1 = emit_cm (CmSessionInactive sessionId) m;
          s1 = snd (broadcastToSession s now (JStr sessionId)
                      (inactivity_message now sessionInfo reason la));
          m2 = (case map_of (activeSessions m1) sessionId of
                  None \<Rightarrow> m1
                | Some session \<Rightarrow>
                    if length (as_clients session) = 0
                    then m1\<lparr>activeSessions := AList.delete sessionId (activeSessions m1)\<rparr>
                    else m1)
      in (m2, s1))"

definition handleSessionDiscovered ::
  "ConnectionManager \<Rightarrow> WebSocketServer \<Rightarrow> int \<Rightarrow> string \<Rightarrow> SessionInfo
     \<Rightarrow> ConnectionManager \<times> WebSocketServer" where
  "handleSessionDiscovered m s now filePath sessionInfo =
     (let sessionId = si_sessionId sessionInfo;
          m1 = emit_cm (CmSessionDiscovered sessionId) m;
          notification =
            [(''type'', PStr ''session_discovered''),
             (''timestamp'', PTime now),
             (''sessionId'', PStr sessionId),
             (''data'', PObj [(''projectPath'', PStr (si_projectPath sessionInfo)),
                              (''filePath'', PStr filePath)])]
      in (m1, snd (broadcast s \<lparr> w_type = ''session_notification'',
                                  w_payload = notification,
                                  w_timestamp = now \<rparr>)))"

definition handleSessionTerminated ::
  "ConnectionManager \<Rightarrow> WebSocketServer \<Rightarrow> int \<Rightarrow> SessionInfo
     \<Rightarrow> ConnectionManager \<times> WebSocketServer" where
  "handleSessionTerminated m s now sessionInfo =
     (let sessionId = si_sessionId sessionInfo;
          m1 = emit_cm (CmSessionTerminated sessionId) m;
          terminationMessage =
            \<lparr> sm_type = ''termination'',
              sm_timestamp = PTime now,
              sm_sessionId = JStr sessionId,
              sm_data = [(''reason'', PStr ''Session ended''),
                         (''projectPath'', PStr (si_projectPath sessionInfo))] \<rparr>;
          s1 = snd (broadcastToSession s now (JStr sessionId) terminationMessage)
      in (m1\<lparr>activeSessions := AList.delete sessionId (activeSessions m1)\<rparr>, s1))"

text \<open>
  \<open>cleanupInactiveSessions\<close>, the manager's own interval callback (every 60000 ms):
  the sessions whose \<open>lastActivity\<close> is more than \<open>sessionTimeout\<close> back are
  collected, then each is dropped from \<open>activeSessions\<close> and its viewers are sent a
  \<open>timeout\<close> message.
\<close>

definition timeout_message :: "int \<Rightarrow> string \<Rightarrow> SessionMessage" where
  "timeout_message now sessionId =
     \<lparr> sm_type = ''timeout'',
       sm_timestamp = PTime now,
       sm_sessionId = JStr sessionId,
       sm_data = [(''reason'', PStr ''Session inactive for too long'')] \<rparr>"

fun cleanup_loop ::
  "ConnectionManager \<Rightarrow> WebSocketServer \<Rightarrow> int \<Rightarrow> string list
     \<Rightarrow> ConnectionManager \<times> WebSocketServer" where
  "cleanup_loop m s now [] = (m, s)"
| "cleanup_loop m s now (sessionId # rest) =
     (let m1 = m\<lparr>activeSessions := AList.delete sessionId (activeSessions m)\<rparr>;
          m2 = emit_cm (CmSessionTimeout sessionId) m1;
          s1 = snd (broadcastToSession s now (JStr sessionId) (timeout_message now sessionId))
      in cleanup_loop m2 s1 now rest)"

definition cleanupInactiveSessions ::
  "ConnectionManager \<Rightarrow> WebSocketServer \<Rightarrow> int \<Rightarrow> ConnectionManager \<times> WebSocketServer" where
  "cleanupInactiveSessions m s now =
     cleanup_loop m s now
       (map fst (filter (\<lambda>(sessionId, session). now - as_lastActivity session > sessionTimeout m)
                   (activeSessions m)))"

text \<open>The manager's listeners on \<open>clientDisconnected\<close> and \<open>clientUnsubscribed\<close>.\<close>

definition drop_session_client :: "ConnectionManager \<Rightarrow> string \<Rightarrow> string \<Rightarrow> ConnectionManager" where
  "drop_session_client m clientId sessionId =
     (case map_of (activeSessions m) sessionId of
        None \<Rightarrow> m
      | Some session \<Rightarrow>
          (let cs = removeAll clientId (as_clients session)
           in if length cs = 0
              then emit_cm (CmSessionInactive sessionId)
                     (m\<lparr>activeSessions := AList.delete sessionId (activeSessions m)\<rparr>)
              else m\<lparr>activeSessions :=
                        AList.update sessionId (session\<lparr>as_clients := cs\<rparr>) (activeSessions m)\<rparr>))"

definition handleClientDisconnected ::
  "ConnectionManager \<Rightarrow> string \<Rightarrow> string option \<Rightarrow> ConnectionManager" where
  "handleClientDisconnected m clientId sessionId =
     (let m1 = emit_cm (CmClientDisconnected clientId) m
      in case sessionId of
           None \<Rightarrow> m1
         | Some sid \<Rightarrow> if sid = [] then m1 else drop_session_client m1 clientId sid)"

definition handleClientUnsubscribed ::
  "ConnectionManager \<Rightarrow> string \<Rightarrow> string \<Rightarrow> ConnectionManager" where
  "handleClientUnsubscribed m clientId sessionId =
     emit_cm (CmClientUnsubscribed clientId sessionId) (drop_session_client m clientId sessionId)"

text \<open>
  The manager's listeners on the file monitor's events, run on the events of one
  monitor callback in the order of emission. The monitor's \<open>sessionInactive\<close> always
  carries the reason \<open>inactivity_timeout\<close>; the manager does not listen to
  \<open>parseError\<close> and \<open>error\<close>.
\<close>

fun on_monitor_events ::
  "ConnectionManager \<Rightarrow> WebSocketServer \<Rightarrow> int \<Rightarrow> fsm_event list
     \<Rightarrow> ConnectionManager \<times> WebSocketServer" where
  "on_monitor_events m s now [] = (m, s)"
| "on_monitor_events m s now (NewMessage message # evs) =
     (let (m1, s1) = handleNewMessage m s now message in on_monitor_events m1 s1 now evs)"
| "on_monitor_events m s now (ExistingMessage message # evs) =
     (let (m1, s1) = handleExistingMessage m s now message in on_monitor_events m1 s1 now evs)"
| "on_monitor_events m s now (SessionDiscovered filePath sessionInfo # evs) =
     (let (m1, s1) = handleSessionDiscovered m s now filePath sessionInfo
      in on_monitor_events m1 s1 now evs)"
| "on_monitor_events m s now (SessionTerminated filePath sessionInfo reason # evs) =
     (let (m1, s1) = handleSessionTerminated m s now sessionInfo
      in on_monitor_events m1 s1 now evs)"
| "on_monitor_events m s now (SessionInactive filePath sessionInfo la # evs) =
     (let (m1, s1) = handleSessionInactive m s now sessionInfo ''inactivity_timeout'' la
      in on_monitor_events m1 s1 now evs)"
| "on_monitor_events m s now (ParseError e line filePath # evs) = on_monitor_events m s now evs"
| "on_monitor_events m s now (ErrorEvent # evs) = on_monitor_events m s now evs"

text \<open>The whole server: monitor, WebSocket server and manager.\<close>

record Server =
  sv_monitor :: FileStreamMonitor
  sv_ws :: WebSocketServer
  sv_cm :: ConnectionManager

definition file_added :: "Server \<Rightarrow> int \<Rightarrow> string \<Rightarrow> string option \<Rightarrow> Server" where
  "file_added sv now filePath file =
     (let (fm, evs) = handleFileAdded (sv_monitor sv) filePath file;
          (m, s) = on_monitor_events (sv_cm sv) (sv_ws sv) now evs
      in \<lparr> sv_monitor = fm, sv_ws = s, sv_cm = m \<rparr>)"

definition file_changed :: "Server \<Rightarrow> int \<Rightarrow> string \<Rightarrow> string option \<Rightarrow> Server" where
  "file_changed sv now filePath file =
     (let (fm, evs) = handleFileChanged (sv_monitor sv) now filePath file;
          (m, s) = on_monitor_events (sv_cm sv) (sv_ws sv) now evs
      in \<lparr> sv_monitor = fm, sv_ws = s, sv_cm = m \<rparr>)"

definition inactivity_timer :: "Server \<Rightarrow> int \<Rightarrow> Server" where
  "inactivity_timer sv now =
     (let (fm, evs) = inactivityTick (sv_monitor sv) now;
          (m, s) = on_monitor_events (sv_cm sv) (sv_ws sv) now evs
      in \<lparr> sv_monitor = fm, sv_ws = s, sv_cm = m \<rparr>)"

text \<open>
  \<open>sendSessionStatus\<close> and the manager's listener on \<open>clientConnected\<close>.
\<close>

definition sendSessionStatus ::
  "WebSocketServer \<Rightarrow> FileStreamMonitor \<Rightarrow> int \<Rightarrow> string \<Rightarrow> string \<Rightarrow> WebSocketServer" where
  "sendSessionStatus s fm now clientId sessionId =
     (case find (\<lambda>file. str_includes file sessionId) (map fst (filePositions fm)) of
        None \<Rightarrow>
          snd (sendToClient s clientId
            \<lparr> w_type = ''error'',
              w_payload = [(''error'', PStr ''Session not found'')],
              w_timestamp = now \<rparr>)
      | Some sessionFile \<Rightarrow>
          snd (sendToClient s clientId
            \<lparr> w_type = ''session_status'',
              w_payload =
                [(''sessionId'', PStr sessionId), (''status'', PStr ''active''),
                 (''filePath'', PStr sessionFile), (''timestamp'', PTime now)],
              w_timestamp = now \<rparr>))"

definition handleClientConnected ::
  "ConnectionManager \<Rightarrow> WebSocketServer \<Rightarrow> FileStreamMonitor \<Rightarrow> int \<Rightarrow> string
     \<Rightarrow> string option \<Rightarrow> ConnectionManager \<times> WebSocketServer" where
  "handleClientConnected m s fm now clientId q_sessionId =
     (emit_cm (CmClientConnected clientId) m,
      (case q_sessionId of
         None \<Rightarrow> s
       | Some sessionId \<Rightarrow>
           if sessionId = [] then s else sendSessionStatus s fm now clientId sessionId))"

text \<open>
  The manager's listeners on \<open>clientSubscribed\<close>, \<open>clientDisconnected\<close> and
  \<open>clientUnsubscribed\<close>, run on the events a handler of the WebSocket server has
  emitted (its listener on \<open>clientConnected\<close> is run inside \<open>client_connect\<close>
  below; it has none on the other events).
\<close>

fun on_ws_events ::
  "ConnectionManager \<Rightarrow> WebSocketServer \<Rightarrow> int \<Rightarrow> ws_event list
     \<Rightarrow> ConnectionManager \<times> WebSocketServer" where
  "on_ws_events m s now [] = (m, s)"
| "on_ws_events m s now (ClientSubscribed clientId sessionId f # evs) =
     (let (m1, s1) = handleClientSubscribed m s now clientId sessionId
      in on_ws_events m1 s1 now evs)"
| "on_ws_events m s now (ClientDisconnected clientId sessionId # evs) =
     on_ws_events (handleClientDisconnected m clientId sessionId) s now evs"
| "on_ws_events m s now (ClientUnsubscribed clientId sessionId # evs) =
     on_ws_events (handleClientUnsubscribed m clientId sessionId) s now evs"
| "on_ws_events m s now (e # evs) = on_ws_events m s now evs"

text \<open>
  A new connection: \<open>handleConnection\<close>, with the manager's listener run where
  \<open>clientConnected\<close> is emitted, before the welcome message. A client message
  \<open>authenticate\<close>: \<open>handleAuthentication\<close> (the manager does not listen to its
  event). A client message \<open>subscribe\<close>: \<open>handleSubscription\<close>, then the manager's
  listener on \<open>clientSubscribed\<close>, whose emission is the last thing
  \<open>handleSubscription\<close> does.
\<close>

definition client_connect ::
  "Server \<Rightarrow> int \<Rightarrow> string \<Rightarrow> string option \<Rightarrow> string option \<Rightarrow> Server" where
  "client_connect sv now clientId q_sessionId q_apiKey =
     (let s1 = handleConnection_accept (sv_ws sv) now clientId q_sessionId q_apiKey;
          (m, s2) = handleClientConnected (sv_cm sv) s1 (sv_monitor sv) now clientId q_sessionId
      in sv\<lparr>sv_ws := snd (sendToClient s2 clientId (msg_connected now clientId)),
            sv_cm := m\<rparr>)"

definition client_authenticate :: "Server \<Rightarrow> int \<Rightarrow> string \<Rightarrow> string option \<Rightarrow> Server" where
  "client_authenticate sv now clientId payload_apiKey =
     sv\<lparr>sv_ws := handleAuthentication (sv_ws sv) now clientId payload_apiKey\<rparr>"

definition client_subscribe :: "Server \<Rightarrow> int \<Rightarrow> string \<Rightarrow> subscribe_payload \<Rightarrow> Server" where
  "client_subscribe sv now clientId payload =
     (let s = handleSubscription (sv_ws sv) now clientId payload;
          (m, s') = on_ws_events (sv_cm sv) s now
                      (drop (length (ws_emitted (sv_ws sv))) (ws_emitted s))
      in sv\<lparr>sv_ws := s', sv_cm := m\<rparr>)"

text \<open>
  The timers of the server: the manager's cleanup and the monitor's inactivity check
  (every 60000 ms), the ping interval (every 30000 ms), and the \<open>setTimeout\<close>
  calls that are due. A client's pong is \<open>handlePong\<close>.
\<close>

definition cleanup_timer :: "Server \<Rightarrow> int \<Rightarrow> Server" where
  "cleanup_timer sv now =
     (let (m, s) = cleanupInactiveSessions (sv_cm sv) (sv_ws sv) now
      in sv\<lparr>sv_ws := s, sv_cm := m\<rparr>)"

definition ping_timer :: "Server \<Rightarrow> int \<Rightarrow> Server" where
  "ping_timer sv now =
     (let s = pingTick (sv_ws sv) now;
          (m, s') = on_ws_events (sv_cm sv) s now
                      (drop (length (ws_emitted (sv_ws sv))) (ws_emitted s))
      in sv\<lparr>sv_ws := s', sv_cm := m\<rparr>)"

definition client_pong :: "Server \<Rightarrow> int \<Rightarrow> string \<Rightarrow> Server" where
  "client_pong sv now clientId = sv\<lparr>sv_ws := handlePong (sv_ws sv) now clientId\<rparr>"

fun send_due ::
  "WebSocketServer \<Rightarrow> int \<Rightarrow> (int \<times> string \<times> WebSocketMessage) list \<Rightarrow> WebSocketServer" where
  "send_due s now [] = s"
| "send_due s now ((due, clientId, message) # rest) =
     (if due \<le> now then send_due (snd (sendToClient s clientId message)) now rest
      else send_due s now rest)"

definition timeouts_due :: "Server \<Rightarrow> int \<Rightarrow> Server" where
  "timeouts_due sv now =
     sv\<lparr>sv_ws := send_due (sv_ws sv) now (cm_timers (sv_cm sv)),
        sv_cm := (sv_cm sv)\<lparr>cm_timers := filter (\<lambda>(due, c, w). \<not> due \<le> now)
                                             (cm_timers (sv_cm sv))\<rparr>\<rparr>"

text \<open>
  What happens to the running server, in order: the three interval timers are started
  together at time 0 (the manager's first, then the monitor's, then the ping
  interval), so every 30000 ms the ping interval runs, preceded every 60000 ms by the
  cleanup and the inactivity check.
\<close>

datatype server_event =
    TimeoutsDue int
  | TimerCleanup int
  | TimerInactivity int
  | TimerPing int
  | ClientPong int string
  | FileChanged int string string

fun run_events :: "Server \<Rightarrow> server_event list \<Rightarrow> Server" where
  "run_events sv [] = sv"
| "run_events sv (TimeoutsDue now # evs) = run_events (timeouts_due sv now) evs"
| "run_events sv (TimerCleanup now # evs) = run_events (cleanup_timer sv now) evs"
| "run_events sv (TimerInactivity now # evs) = run_events (inactivity_timer sv now) evs"
| "run_events sv (TimerPing now # evs) = run_events (ping_timer sv now) evs"
| "run_events sv (ClientPong now clientId # evs) = run_events (client_pong sv now clientId) evs"
| "run_events sv (FileChanged now filePath content # evs) =
     run_events (file_changed sv now filePath (Some content)) evs"

text \<open>
  The timers that fire at a multiple \<open>t\<close> of 30000 ms, with client \<open>A\<close> answering the
  ping.
\<close>

definition timers_at :: "int \<Rightarrow> server_event list" where
  "timers_at t =
     (if t mod 60000 = 0 then [TimerCleanup t, TimerInactivity t] else [])
     @ [TimerPing t, ClientPong t ''A'']"

definition timers_between :: "nat \<Rightarrow> nat \<Rightarrow> server_event list" where
  "timers_between i j = concat (map (\<lambda>k. timers_at (30000 * int k)) [i..<j])"

text \<open>The frames written to the clients between two states of the server.\<close>

definition frames_since :: "Server \<Rightarrow> Server \<Rightarrow> (string \<times> WebSocketMessage) list" where
  "frames_since sv sv' = drop (length (sent (sv_ws sv))) (sent (sv_ws sv'))"

subsection \<open>The viewing scenario\<close>

text \<open>
  Two devices are paired: \<open>D1\<close> holds \<open>K1\<close> (see above), \<open>D2\<close> redeems a second
  token at time 4000 and holds \<open>K2\<close>. The watcher reports the empty log of session
  \<open>S1\<close>. Client \<open>A\<close> connects, authenticates with \<open>K1\<close> and subscribes to \<open>S1\<close>.
\<close>

definition auth3 :: AuthenticationService where
  "auth3 = snd (route_mobile (snd (generateAuthQR auth2 3000 ''T2'' True)) 4000 ''K2''
                  (Some ''T2'') (Some ''D2''))"

definition server0 :: Server where
  "server0 =
     file_added
       \<lparr> sv_monitor = monitor0,
         sv_ws = setAuthService (new_WebSocketServer None None) auth3,
         sv_cm = new_ConnectionManager None None \<rparr>
       1000 log_path (Some [])"

definition subscribe_S1 :: "bool \<Rightarrow> subscribe_payload" where
  "subscribe_S1 force = \<lparr> p_sessionId = Some ''S1'', p_forceTakeover = force \<rparr>"

definition server_A :: Server where
  "server_A =
     client_subscribe
       (client_authenticate (client_connect server0 5000 ''A'' None None) 5001 ''A'' (Some ''K1''))
       5002 ''A'' (subscribe_S1 False)"

text \<open>
  Client \<open>B\<close> opens a connection whose URL carries \<open>sessionId=S1\<close> and
  \<open>apiKey=K2\<close>.
\<close>

definition server_AB :: Server where
  "server_AB = client_connect server_A 6000 ''B'' (Some ''S1'') (Some ''K2'')"

text \<open>
  Or else client \<open>B\<close> connects without parameters, authenticates with \<open>K2\<close>, and
  subscribes to \<open>S1\<close> with \<open>forceTakeover\<close>.
\<close>

definition server_B_auth :: Server where
  "server_B_auth =
     client_authenticate (client_connect server_A 6000 ''B'' None None) 6001 ''B'' (Some ''K2'')"

definition server_B_takeover :: Server where
  "server_B_takeover = client_subscribe server_B_auth 6002 ''B'' (subscribe_S1 True)"

text \<open>
  Or else, with \<open>A\<close> alone, who answers every ping. The end of the history prelude
  is sent when it is due, and the timers of time 30000 fire. An assistant record is
  written at \<open>t0 = 59000\<close>. Then the timers fire from time 60000 to 630000, the
  last cleanup and inactivity check among them being those of time 600000, nine
  minutes and one second after \<open>t0\<close>. Then the timers of time 660000 fire, ten
  minutes and one second after \<open>t0\<close>. Then the timers of time 690000 fire and a user
  record is written at time 700000.
\<close>

definition server_rec :: Server where
  "server_rec =
     run_events server_A
       ([TimeoutsDue 5102] @ timers_between 1 2
        @ [FileChanged 59000 log_path (line_two @ nl)])"

definition server_9min :: Server where
  "server_9min = run_events server_rec (timers_between 2 22)"

definition server_10min :: Server where
  "server_10min = run_events server_9min (timers_between 22 23)"

definition server_user :: Server where
  "server_user =
     run_events server_10min
       (timers_between 23 24
        @ [FileChanged 700000 log_path (line_two @ nl @ line_three @ nl)])"

section \<open>The JSON parser consumes its input, and its fuel is adequate\<close>


lemma skip_ws_length: "length (skip_ws s) \<le> length s"
  by (simp add: skip_ws_def length_dropWhile_le)

lemma str_chars_step:
  assumes "str_chars acc (c # cs) = Some (t, r)"
  shows "r = cs \<or> (\<exists>acc' s'. length s' \<le> length cs \<and> str_chars acc' s' = Some (t, r))"
proof (cases "c = CHR 0x22")
  case True
  with assms show ?thesis by simp
next
  case False
  note nq = False
  show ?thesis
  proof (cases "c = CHR 0x5C")
    case False
    with nq assms have "str_chars (Inl c # acc) cs = Some (t, r)"
      by (simp split: if_splits)
    then show ?thesis by blast
  next
    case True
    with assms obtain e cs' where cs: "cs = e # cs'"
      by (cases cs) simp_all
    show ?thesis
    proof (cases "e = CHR ''u''")
      case False
      with True assms cs obtain d where "str_chars (Inl d # acc) cs' = Some (t, r)"
        by (auto split: option.splits)
      moreover have "length cs' \<le> length cs" using cs by simp
      ultimately show ?thesis by blast
    next
      case u: True
      with True assms cs obtain a b c' d cs'' where q: "cs' = a # b # c' # d # cs''"
        by (auto split: list.splits)
      with u True assms cs obtain acc' where "str_chars acc' cs'' = Some (t, r)"
        by (auto split: option.splits)
      moreover have "length cs'' \<le> length cs" using cs q by simp
      ultimately show ?thesis by blast
    qed
  qed
qed

lemma str_chars_length: "str_chars acc s = Some (t, r) \<Longrightarrow> length r < length s"
proof (induction "length s" arbitrary: s acc rule: less_induct)
  case less
  show ?case
  proof (cases s)
    case Nil
    with less.prems show ?thesis by simp
  next
    case (Cons c cs)
    from str_chars_step [of acc c cs t r] less.prems Cons
    consider "r = cs"
      | acc' s' where "length s' \<le> length cs" "str_chars acc' s' = Some (t, r)"
      by blast
    then show ?thesis
    proof cases
      case 1
      with Cons show ?thesis by simp
    next
      case 2
      from 2(1) Cons have "length s' < length s" by simp
      from less.hyps [OF this 2(2)] 2(1) Cons show ?thesis by simp
    qed
  qed
qed

lemma digits1_length: "digits1 s = Some (ds, r) \<Longrightarrow> length r < length s"
  by (auto simp: digits1_def Let_def split: if_splits)
     (metis length_dropWhile_le takeWhile_dropWhile_id length_append length_greater_0_conv
        le_neq_implies_less less_add_same_cancel2 nat_neq_iff)

lemma num_int_length: "num_int s = Some (i, r) \<Longrightarrow> length r < length s"
  by (auto simp: num_int_def split: list.splits if_splits intro: le_imp_less_Suc length_dropWhile_le)

lemma num_frac_length: "num_frac s = Some (f, r) \<Longrightarrow> length r \<le> length s"
  by (auto simp: num_frac_def split: list.splits if_splits option.splits prod.splits
        dest!: digits1_length)

lemma num_exp_length: "num_exp s = Some (e, r) \<Longrightarrow> length r \<le> length s"
  by (auto simp: num_exp_def split: list.splits if_splits option.splits prod.splits
        dest!: digits1_length)

lemma parse_number_length: "parse_number s = Some (l, r) \<Longrightarrow> length r < length s"
  by (auto simp: parse_number_def Let_def
        split: list.splits if_splits option.splits prod.splits
        dest!: num_int_length num_frac_length num_exp_length)


lemma skip_ws_Cons_length: "skip_ws x = d # r \<Longrightarrow> length r < length x"
  using skip_ws_length [of x] by simp

lemma parse_value_Suc_length:
  assumes E: "\<And>s acc v r. parse_elems n acc s = Some (v, r) \<Longrightarrow> length r < length s"
    and M: "\<And>s macc v r. parse_membs n macc s = Some (v, r) \<Longrightarrow> length r < length s"
    and h: "parse_value (Suc n) s = Some (v, r)"
  shows "length r < length s"
proof (cases s)
  case Nil
  with h show ?thesis by simp
next
  case (Cons c cs)
  show ?thesis
  proof (cases "c = CHR ''{''")
    case True
    with h Cons obtain d r' where d: "skip_ws cs = d # r'"
      by (cases "skip_ws cs") simp_all
    from skip_ws_Cons_length [OF d] have l: "length (d # r') \<le> length cs" by simp
    show ?thesis
    proof (cases "d = CHR ''}''")
      case True
      with h Cons \<open>c = CHR ''{''\<close> d l show ?thesis by simp
    next
      case False
      with h Cons \<open>c = CHR ''{''\<close> d have "parse_membs n [] (d # r') = Some (v, r)" by simp
      from M [OF this] l Cons show ?thesis by simp
    qed
  next
    case nb: False
    show ?thesis
    proof (cases "c = CHR ''[''")
      case True
      with h Cons obtain d r' where d: "skip_ws cs = d # r'"
        by (cases "skip_ws cs") simp_all
      from skip_ws_Cons_length [OF d] have l: "length (d # r') \<le> length cs" by simp
      show ?thesis
      proof (cases "d = CHR '']''")
        case True
        with h Cons \<open>c = CHR ''[''\<close> d l show ?thesis by simp
      next
        case False
        with h Cons \<open>c = CHR ''[''\<close> d have "parse_elems n [] (d # r') = Some (v, r)" by simp
        from E [OF this] l Cons show ?thesis by simp
      qed
    next
      case na: False
      show ?thesis
      proof (cases "c = CHR 0x22")
        case True
        with h Cons nb na obtain t where "str_chars [] cs = Some (t, r)"
          by (auto split: option.splits)
        from str_chars_length [OF this] Cons show ?thesis by simp
      next
        case ns: False
        show ?thesis
        proof (cases "c = CHR ''-'' \<or> is_digit c")
          case True
          with h Cons nb na ns obtain l where "parse_number s = Some (l, r)"
            by (auto split: option.splits)
          from parse_number_length [OF this] show ?thesis .
        next
          case False
          with h Cons nb na ns have "r = drop 4 s \<or> r = drop 5 s"
            by (auto split: if_splits)
          with Cons show ?thesis by auto
        qed
      qed
    qed
  qed
qed

lemma parse_elems_Suc_length:
  assumes V: "\<And>s v r. parse_value n s = Some (v, r) \<Longrightarrow> length r < length s"
    and E: "\<And>s acc v r. parse_elems n acc s = Some (v, r) \<Longrightarrow> length r < length s"
    and h: "parse_elems (Suc n) acc s = Some (v, r)"
  shows "length r < length s"
proof -
  from h obtain v1 r1 where a: "parse_value n s = Some (v1, r1)"
    by (cases "parse_value n s") auto
  from h a obtain c r' where b: "skip_ws r1 = c # r'"
    by (cases "skip_ws r1") simp_all
  from V [OF a] skip_ws_Cons_length [OF b] have l: "length r' < length s" by simp
  show ?thesis
  proof (cases "c = CHR '',''")
    case True
    with h a b have "parse_elems n (v1 # acc) (skip_ws r') = Some (v, r)" by simp
    from E [OF this] skip_ws_length [of r'] l show ?thesis by simp
  next
    case False
    with h a b have "r = r'" by (simp split: if_splits)
    with l show ?thesis by simp
  qed
qed

lemma parse_membs_Suc_length:
  assumes V: "\<And>s v r. parse_value n s = Some (v, r) \<Longrightarrow> length r < length s"
    and M: "\<And>s macc v r. parse_membs n macc s = Some (v, r) \<Longrightarrow> length r < length s"
    and h: "parse_membs (Suc n) macc s = Some (v, r)"
  shows "length r < length s"
proof -
  from h obtain q s1 where s: "s = q # s1" by (cases s) simp_all
  from h s have q: "q = CHR 0x22" by (simp split: if_splits)
  from h s q obtain k s2 where a: "str_chars [] s1 = Some (k, s2)"
    by (cases "str_chars [] s1") auto
  from h s q a obtain c s3 where b: "skip_ws s2 = c # s3"
    by (cases "skip_ws s2") simp_all
  from h s q a b have c: "c = CHR '':''" by (simp split: if_splits)
  from h s q a b c obtain v1 r1 where d: "parse_value n (skip_ws s3) = Some (v1, r1)"
    by (cases "parse_value n (skip_ws s3)") auto
  from h s q a b c d obtain e r' where f: "skip_ws r1 = e # r'"
    by (cases "skip_ws r1") simp_all
  from str_chars_length [OF a] skip_ws_Cons_length [OF b] skip_ws_length [of s3] V [OF d] skip_ws_Cons_length [OF f] s
  have l: "length r' < length s" by simp
  show ?thesis
  proof (cases "e = CHR '',''")
    case True
    with h s q a b c d f
    have "parse_membs n (AList.update k v1 macc) (skip_ws r') = Some (v, r)" by simp
    from M [OF this] skip_ws_length [of r'] l show ?thesis by simp
  next
    case False
    with h s q a b c d f have "r = r'" by (simp split: if_splits)
    with l show ?thesis by simp
  qed
qed

lemma parse_length:
  "(parse_value n s = Some (v, r) \<longrightarrow> length r < length s)
   \<and> (parse_elems n acc s = Some (v, r) \<longrightarrow> length r < length s)
   \<and> (parse_membs n macc s = Some (v, r) \<longrightarrow> length r < length s)"
proof (induction n arbitrary: s acc macc v r)
  case 0
  show ?case by simp
next
  case (Suc n)
  have V: "\<And>s v r. parse_value n s = Some (v, r) \<Longrightarrow> length r < length s"
    and E: "\<And>s acc v r. parse_elems n acc s = Some (v, r) \<Longrightarrow> length r < length s"
    and M: "\<And>s macc v r. parse_membs n macc s = Some (v, r) \<Longrightarrow> length r < length s"
    using Suc.IH by blast+
  have 1: "length r < length s" if "parse_value (Suc n) s = Some (v, r)"
    using that by (rule parse_value_Suc_length [of n, rotated 2]) (erule E, erule M)
  have 2: "length r < length s" if "parse_elems (Suc n) acc s = Some (v, r)"
    using that by (rule parse_elems_Suc_length [of n, rotated 2]) (erule V, erule E)
  have 3: "length r < length s" if "parse_membs (Suc n) macc s = Some (v, r)"
    using that by (rule parse_membs_Suc_length [of n, rotated 2]) (erule V, erule M)
  from 1 2 3 show ?case by blast
qed

lemma parse_value_length: "parse_value n s = Some (v, r) \<Longrightarrow> length r < length s"
  using parse_length [of n s v r] by blast


lemma parse_value_Suc_cong:
  assumes E: "\<And>t acc. length t < length s \<Longrightarrow> parse_elems n acc t = parse_elems m acc t"
    and M: "\<And>t acc. length t < length s \<Longrightarrow> parse_membs n acc t = parse_membs m acc t"
  shows "parse_value (Suc n) s = parse_value (Suc m) s"
proof (cases s)
  case Nil
  then show ?thesis by simp
next
  case (Cons c cs)
  have e: "parse_elems n [] (d # r) = parse_elems m [] (d # r)" if "skip_ws cs = d # r" for d r
    using skip_ws_Cons_length [OF that] Cons by (intro E) simp
  have m: "parse_membs n [] (d # r) = parse_membs m [] (d # r)" if "skip_ws cs = d # r" for d r
    using skip_ws_Cons_length [OF that] Cons by (intro M) simp
  show ?thesis
    using e m by (simp add: Cons split: list.splits)
qed

lemma parse_elems_Suc_cong:
  assumes V: "parse_value n s = parse_value m s"
    and E: "\<And>t acc. length t < length s \<Longrightarrow> parse_elems n acc t = parse_elems m acc t"
  shows "parse_elems (Suc n) acc s = parse_elems (Suc m) acc s"
proof (cases "parse_value m s")
  case None
  with V show ?thesis by simp
next
  case (Some p)
  obtain v r where p: "p = (v, r)" by (cases p)
  from Some p parse_value_length [of m s v r] have l: "length r < length s" by simp
  have e: "parse_elems n (v # acc) (skip_ws r') = parse_elems m (v # acc) (skip_ws r')"
    if "skip_ws r = c # r'" for c r'
    using skip_ws_Cons_length [OF that] skip_ws_length [of r'] l by (intro E) simp
  show ?thesis
    using V Some p e by (simp split: list.splits)
qed

lemma parse_membs_Suc_cong:
  assumes V: "\<And>t. length t < length s \<Longrightarrow> parse_value n t = parse_value m t"
    and M: "\<And>t acc. length t < length s \<Longrightarrow> parse_membs n acc t = parse_membs m acc t"
  shows "parse_membs (Suc n) acc s = parse_membs (Suc m) acc s"
proof (cases s)
  case Nil
  then show ?thesis by simp
next
  case (Cons q s1)
  show ?thesis
  proof (cases "str_chars [] s1")
    case None
    with Cons show ?thesis by simp
  next
    case (Some p)
    obtain k s2 where p: "p = (k, s2)" by (cases p)
    from Some p str_chars_length have l2: "length s2 < length s1" by blast
    show ?thesis
    proof (cases "skip_ws s2")
      case Nil
      with Cons Some p show ?thesis by simp
    next
      case c: (Cons c s3)
      from skip_ws_Cons_length [OF c] skip_ws_length [of s3] l2 Cons
      have l3: "length (skip_ws s3) < length s" by simp
      note v = V [OF l3]
      show ?thesis
      proof (cases "parse_value m (skip_ws s3)")
        case None
        with Cons Some p c v show ?thesis by simp
      next
        case vr: (Some pv)
        obtain v1 r1 where pv: "pv = (v1, r1)" by (cases pv)
        from vr pv parse_value_length [of m "skip_ws s3" v1 r1] l3
        have l4: "length r1 < length s" by simp
        have mm: "parse_membs n (AList.update k v1 acc) (skip_ws r')
              = parse_membs m (AList.update k v1 acc) (skip_ws r')"
          if "skip_ws r1 = d # r'" for d r'
          using skip_ws_Cons_length [OF that] skip_ws_length [of r'] l4 by (intro M) simp
        show ?thesis
          using Cons Some p c v vr pv mm by (simp split: list.splits)
      qed
    qed
  qed
qed

lemma fuel_stable:
  "(\<forall>n m. 2 * length s + 1 \<le> n \<longrightarrow> 2 * length s + 1 \<le> m \<longrightarrow>
       parse_value n s = parse_value m s)
   \<and> (\<forall>n m acc. 2 * length s + 2 \<le> n \<longrightarrow> 2 * length s + 2 \<le> m \<longrightarrow>
       parse_elems n acc s = parse_elems m acc s)
   \<and> (\<forall>n m acc. 2 * length s + 2 \<le> n \<longrightarrow> 2 * length s + 2 \<le> m \<longrightarrow>
       parse_membs n acc s = parse_membs m acc s)"
proof (induction "length s" arbitrary: s rule: less_induct)
  case less
  have IHV: "parse_value n t = parse_value m t"
    if "length t < length s" "2 * length t + 1 \<le> n" "2 * length t + 1 \<le> m" for t n m
    using less.hyps [OF that(1)] that(2,3) by blast
  have IHE: "parse_elems n acc t = parse_elems m acc t"
    if "length t < length s" "2 * length t + 2 \<le> n" "2 * length t + 2 \<le> m" for t n m acc
    using less.hyps [OF that(1)] that(2,3) by blast
  have IHM: "parse_membs n acc t = parse_membs m acc t"
    if "length t < length s" "2 * length t + 2 \<le> n" "2 * length t + 2 \<le> m" for t n m acc
    using less.hyps [OF that(1)] that(2,3) by blast
  have V: "parse_value n s = parse_value m s"
    if b: "2 * length s + 1 \<le> n" "2 * length s + 1 \<le> m" for n m
  proof -
    from b obtain n' m' where nm: "n = Suc n'" "m = Suc m'"
      by (cases n; cases m) simp_all
    have "parse_value (Suc n') s = parse_value (Suc m') s"
    proof (rule parse_value_Suc_cong)
      fix t :: string and acc
      assume "length t < length s"
      with b nm show "parse_elems n' acc t = parse_elems m' acc t"
        by (intro IHE) simp_all
    next
      fix t :: string and acc
      assume "length t < length s"
      with b nm show "parse_membs n' acc t = parse_membs m' acc t"
        by (intro IHM) simp_all
    qed
    with nm show ?thesis by simp
  qed
  have E: "parse_elems n acc s = parse_elems m acc s"
    if b: "2 * length s + 2 \<le> n" "2 * length s + 2 \<le> m" for n m acc
  proof -
    from b obtain n' m' where nm: "n = Suc n'" "m = Suc m'"
      by (cases n; cases m) simp_all
    have "parse_elems (Suc n') acc s = parse_elems (Suc m') acc s"
    proof (rule parse_elems_Suc_cong)
      from b nm show "parse_value n' s = parse_value m' s" by (intro V) simp_all
    next
      fix t :: string and acc
      assume "length t < length s"
      with b nm show "parse_elems n' acc t = parse_elems m' acc t"
        by (intro IHE) simp_all
    qed
    with nm show ?thesis by simp
  qed
  have M: "parse_membs n acc s = parse_membs m acc s"
    if b: "2 * length s + 2 \<le> n" "2 * length s + 2 \<le> m" for n m acc
  proof -
    from b obtain n' m' where nm: "n = Suc n'" "m = Suc m'"
      by (cases n; cases m) simp_all
    have "parse_membs (Suc n') acc s = parse_membs (Suc m') acc s"
    proof (rule parse_membs_Suc_cong)
      fix t :: string
      assume "length t < length s"
      with b nm show "parse_value n' t = parse_value m' t"
        by (intro IHV) simp_all
    next
      fix t :: string and acc
      assume "length t < length s"
      with b nm show "parse_membs n' acc t = parse_membs m' acc t"
        by (intro IHM) simp_all
    qed
    with nm show ?thesis by simp
  qed
  from V E M show ?case by blast
qed

text \<open>
  The result of the parser does not depend on the fuel once it is at least the bound
  that \<open>JSON_parse\<close> gives it: the bound cuts no parse short.
\<close>

lemma JSON_parse_fuel:
  assumes "2 * length s + 2 \<le> n"
  shows "parse_value n (skip_ws s) = parse_value (2 * length s + 2) (skip_ws s)"
proof -
  have "2 * length (skip_ws s) + 1 \<le> 2 * length s + 2"
    using skip_ws_length [of s] by simp
  moreover from this assms have "2 * length (skip_ws s) + 1 \<le> n" by simp
  ultimately show ?thesis
    using fuel_stable [of "skip_ws s"] by blast
qed

section \<open>Properties of the record parser and the file tailer\<close>

lemma parseJSONLLine_never_throws: "parseJSONLLine line filePath \<noteq> Inl e"
  by (simp add: parseJSONLLine_def split: sum.splits)

lemma read_line_NewMessage_no_parseError:
  "parseErrors (read_line NewMessage filePath line) = []"
  using parseJSONLLine_never_throws [of line filePath]
  by (cases "parseJSONLLine line filePath")
     (auto simp: read_line_def parseErrors_def split: option.splits)

lemma parseErrors_concat: "parseErrors (concat xss) = concat (map parseErrors xss)"
  by (induction xss) (simp_all add: parseErrors_def)

lemma readNewContent_no_parseError:
  "parseErrors (readNewContent filePath content startPosition) = []"
  by (simp add: readNewContent_def parseErrors_concat read_line_NewMessage_no_parseError)

lemma parseJSONLLine_object:
  assumes "JSON_parse line = Inr (JObj kvs)"
  shows "parseJSONLLine line p =
     (if truthy (field (JObj kvs) ''sessionId'') \<and> truthy (field (JObj kvs) ''type'')
         \<and> truthy (field (JObj kvs) ''message'') \<and> truthy (field (JObj kvs) ''timestamp'')
      then Inr (Some \<lparr> m_parentUuid = js_or (field (JObj kvs) ''parentUuid'') (JStr ''''),
                        m_sessionId = field (JObj kvs) ''sessionId'',
                        m_type = field (JObj kvs) ''type'',
                        m_message = field (JObj kvs) ''message'',
                        m_timestamp = field (JObj kvs) ''timestamp'',
                        m_cwd = js_or (field (JObj kvs) ''cwd'') (JStr '''') \<rparr>)
      else Inr None)"
  using assms by (simp add: parseJSONLLine_def parseJSONLLine_try_def bind_exn_def field_def)

lemma parseJSONLLine_not_object:
  assumes "JSON_parse line = Inr v" and "\<forall>kvs. v \<noteq> JObj kvs"
  shows "parseJSONLLine line p = Inr None"
  using assms
  by (cases v) (simp_all add: parseJSONLLine_def parseJSONLLine_try_def bind_exn_def)

lemma parseJSONLLine_syntax_error:
  assumes "JSON_parse line = Inl e"
  shows "parseJSONLLine line p = Inr None"
  using assms by (simp add: parseJSONLLine_def parseJSONLLine_try_def bind_exn_def)

lemma field_truthy_object:
  assumes "truthy (field v k)"
  obtains kvs where "v = JObj kvs"
  using assms by (cases v) (simp_all add: field_def)

text \<open>
  What \<open>parseJSONLLine\<close> accepts, exactly: a line yields a record if and only if it is
  valid JSON whose \<open>sessionId\<close>, \<open>type\<close>, \<open>message\<close> and \<open>timestamp\<close> are
  truthy, and the record carries these four values as they are.
\<close>

lemma parseJSONLLine_accepts_iff:
  "parseJSONLLine line p = Inr (Some m) \<longleftrightarrow>
     (\<exists>v. JSON_parse line = Inr v
        \<and> truthy (field v ''sessionId'') \<and> truthy (field v ''type'')
        \<and> truthy (field v ''message'') \<and> truthy (field v ''timestamp'')
        \<and> m = \<lparr> m_parentUuid = js_or (field v ''parentUuid'') (JStr ''''),
                  m_sessionId = field v ''sessionId'',
                  m_type = field v ''type'',
                  m_message = field v ''message'',
                  m_timestamp = field v ''timestamp'',
                  m_cwd = js_or (field v ''cwd'') (JStr '''') \<rparr>)"
  (is "?L \<longleftrightarrow> ?R")
proof
  assume acc: ?L
  show ?R
  proof (cases "JSON_parse line")
    case (Inl e)
    with acc parseJSONLLine_syntax_error [of line e p] show ?thesis by simp
  next
    case (Inr w)
    show ?thesis
    proof (cases "\<exists>kvs. w = JObj kvs")
      case False
      with Inr acc parseJSONLLine_not_object [of line w p] show ?thesis by simp
    next
      case True
      then obtain kvs where w: "w = JObj kvs" by blast
      from acc Inr w parseJSONLLine_object [of line kvs p]
      have "truthy (field w ''sessionId'') \<and> truthy (field w ''type'')
           \<and> truthy (field w ''message'') \<and> truthy (field w ''timestamp'')
           \<and> m = \<lparr> m_parentUuid = js_or (field w ''parentUuid'') (JStr ''''),
                  m_sessionId = field w ''sessionId'',
                  m_type = field w ''type'',
                  m_message = field w ''message'',
                  m_timestamp = field w ''timestamp'',
                  m_cwd = js_or (field w ''cwd'') (JStr '''') \<rparr>"
        by (auto split: if_splits)
      with Inr show ?thesis by blast
    qed
  qed
next
  assume ?R
  then obtain v where v: "JSON_parse line = Inr v"
    and t: "truthy (field v ''sessionId'')" "truthy (field v ''type'')"
           "truthy (field v ''message'')" "truthy (field v ''timestamp'')"
    and m: "m = \<lparr> m_parentUuid = js_or (field v ''parentUuid'') (JStr ''''),
                  m_sessionId = field v ''sessionId'',
                  m_type = field v ''type'',
                  m_message = field v ''message'',
                  m_timestamp = field v ''timestamp'',
                  m_cwd = js_or (field v ''cwd'') (JStr '''') \<rparr>"
    by blast
  from t(1) obtain kvs where o: "v = JObj kvs" by (rule field_truthy_object)
  from v o t m parseJSONLLine_object [of line kvs p] show ?L by simp
qed

text \<open>
  Claim C7 at two lines that are not records of the declared shape. The first is a
  well-formed line of session \<open>S1\<close> whose \<open>type\<close> and \<open>message.role\<close> are
  \<open>system\<close>; the second has a number for \<open>sessionId\<close>, the type \<open>system\<close>, a
  string for \<open>message\<close> and a \<open>timestamp\<close> that is no instant. Neither meets the
  claim's conditions, and the repository's own validator
  (\<open>JSONLParser.isValidClaudeCodeMessage\<close>) refuses both; \<open>parseJSONLLine\<close> yields
  a record for each, and the tailer hands the first on as a new message of \<open>S1\<close>.
\<close>

theorem C7_unvalidated_lines_yield_records:
  "JSON_parse line_system = Inr json_system
   \<and> \<not> spec_required_fields json_system
   \<and> \<not> isValidClaudeCodeMessage json_system
   \<and> parseJSONLLine line_system log_path =
       Inr (Some \<lparr> m_parentUuid = JStr '''', m_sessionId = JStr ''S1'',
                   m_type = JStr ''system'',
                   m_message = JObj [(''role'', JStr ''system''), (''content'', JStr ''note'')],
                   m_timestamp = JStr ''2025-09-14T15:06:00.000Z'', m_cwd = JStr '''' \<rparr>)
   \<and> map m_type (delivered (snd (changes monitor1 1000 log_path [line_system @ nl])))
       = [JStr ''system'']
   \<and> JSON_parse line_lenient = Inr json_lenient
   \<and> \<not> spec_required_fields json_lenient
   \<and> \<not> isValidClaudeCodeMessage json_lenient
   \<and> parseJSONLLine line_lenient log_path =
       Inr (Some \<lparr> m_parentUuid = JStr '''', m_sessionId = JNum ''42'',
                   m_type = JStr ''system'', m_message = JStr ''x'',
                   m_timestamp = JStr ''yesterday'', m_cwd = JStr '''' \<rparr>)"
  by code_simp

text \<open>
  Claim C8 at a malformed line. The line \<open>{ invalid json }\<close> is a JSON syntax error;
  on the change notification after it is written the tailer emits nothing at all: no
  record, and no \<open>parseError\<close> event, because \<open>parseJSONLLine\<close> catches the
  exception itself and the \<open>catch\<close> of \<open>readNewContent\<close> that emits \<open>parseError\<close>
  is never entered.
\<close>

theorem C8_malformed_line_no_parseError:
  "JSON_parse ''{ invalid json }'' = Inl SyntaxError
   \<and> snd (handleFileChanged monitor1 1000 log_path (Some (''{ invalid json }'' @ nl))) = []
   \<and> readNewContent log_path (''{ invalid json }'' @ nl) 0 = []"
  by code_simp

text \<open>
  Claim C2 at a truncation that leaves content. The log holds two lines and both are
  delivered; it is then cut down to one shorter line (observed size below the stored
  offset), which is delivered from offset 0, but the stored offset stays 0; when a
  fourth line is appended the file is read from 0 again, and the third record is
  delivered a second time.
\<close>

theorem C2_truncation_redelivers:
  "delivered (snd (changes monitor1 1000 log_path
      [line_one @ nl @ line_two @ nl,
       line_three @ nl,
       line_three @ nl @ line_four @ nl]))
     = [msg_one, msg_two, msg_three, msg_three, msg_four]
   \<and> length (line_three @ nl) < length (line_one @ nl @ line_two @ nl)
   \<and> map_of (filePositions (fst (changes monitor1 1000 log_path
      [line_one @ nl @ line_two @ nl, line_three @ nl]))) log_path = Some 0"
  by code_simp

lemma truncation_to_empty_then_append:
  "delivered (snd (changes monitor1 1000 log_path
      [line_one @ nl @ line_two @ nl, [], line_three @ nl]))
     = [msg_one, msg_two, msg_three]"
  by code_simp

text \<open>
  Claim C3 at a line written in two chunks. Written at once, the line is delivered as
  one record. Written as its first 40 bytes and then the rest, nothing is delivered:
  the first read parses the partial line as if it were complete and drops it, the
  stored offset moves past it, and the second read starts in the middle of the line.
\<close>

theorem C3_chunked_write_loses_record:
  "delivered (snd (changes monitor1 1000 log_path (appends [] [line_one @ nl]))) = [msg_one]
   \<and> delivered (snd (changes monitor1 1000 log_path
        (appends [] [take 40 (line_one @ nl), drop 40 (line_one @ nl)]))) = []
   \<and> take 40 (line_one @ nl) @ drop 40 (line_one @ nl) = line_one @ nl"
  by code_simp


section \<open>Properties of the authentication service\<close>

lemma authenticateMobile_removes_token:
  assumes "authenticateMobile a now newKey tok dev = (Inr r, a')"
  shows "map_of (guestTokens a') tok = None"
  using assms
  by (auto simp: authenticateMobile_def emit_auth_def Let_def AList.delete_conv'
           split: option.splits if_splits)

lemma authenticateMobile_unknown_token:
  assumes "map_of (guestTokens a) tok = None"
  shows "fst (authenticateMobile a now newKey tok dev) = Inl Invalid_guest_token"
  using assms by (simp add: authenticateMobile_def)

lemma redeemed_token_is_unknown_afterwards:
  assumes "authenticateMobile a now newKey tok dev = (Inr r, a')"
  shows "fst (authenticateMobile a' now' newKey' tok dev') = Inl Invalid_guest_token"
  using authenticateMobile_removes_token [OF assms]
  by (rule authenticateMobile_unknown_token)

lemma auth2_state: "apiKeys auth2 = [(''K1'', cred_K1)] \<and> guestTokens auth2 = []"
  by code_simp

text \<open>
  Claim C4 in the pairing scenario. Token \<open>T1\<close> is issued and redeemed once (HTTP
  200, key \<open>K1\<close>). The redemption deletes the token from the table, so the second
  POST with the same body does not reach the \<open>used\<close> check: it fails as an unknown
  token, \<open>Invalid guest token\<close>, HTTP 401, where the claim has \<open>already_consumed\<close>
  and HTTP 409.
\<close>

theorem C4_second_redemption_status:
  "fst (fst (route_mobile auth1 1000 ''K1'' (Some ''T1'') (Some ''D1''))) = 200
   \<and> guestTokens auth2 = []
   \<and> fst (route_mobile auth2 2000 ''K2'' (Some ''T1'') (Some ''D1''))
       = (401, Failure ''Authentication failed'' ''Invalid guest token'')
   \<and> fst (authenticateMobile auth2 2000 ''K2'' ''T1'' ''D1'') = Inl Invalid_guest_token
   \<and> apiKeys (snd (route_mobile auth2 2000 ''K2'' (Some ''T1'') (Some ''D1'')))
       = [(''K1'', cred_K1)]"
  by code_simp

lemma refreshApiKey_valid:
  assumes "map_of (apiKeys a) k = Some c" and "\<not> k_revoked c" and "now \<le> k_expiresAt c"
  shows "refreshApiKey a now k =
     (Some (k_key c, now + apiKeyTTL (options a)),
      emit_auth (ApiKeyRefreshed (k_deviceId c) (k_key c) (now + apiKeyTTL (options a)))
        (a\<lparr>apiKeys := AList.update k
              (c\<lparr>k_expiresAt := now + apiKeyTTL (options a), k_lastUsed := Some now\<rparr>)
              (apiKeys a)\<rparr>))"
  using assms by (simp add: refreshApiKey_def Let_def)

lemma refreshApiKey_invalid:
  assumes "\<not> (\<exists>c. map_of (apiKeys a) k = Some c \<and> \<not> k_revoked c \<and> now \<le> k_expiresAt c)"
  shows "refreshApiKey a now k = (None, a)"
  using assms by (auto simp: refreshApiKey_def split: option.splits)

text \<open>
  Claim C5, as the code has it. For a credential that is currently valid (it exists,
  is not revoked, and \<open>now\<close> is not after its expiry), \<open>refreshApiKey\<close> sets the
  expiry to \<open>now\<close> plus the credential TTL, counted from the time of the call and not
  from the prior expiry, sets \<open>lastUsed\<close> to \<open>now\<close>, leaves every other field and
  every other credential as it was, and returns the key with the new expiry. For any
  other key it returns \<open>null\<close> and changes nothing.
\<close>

theorem C5_refresh_extends_from_now:
  "(map_of (apiKeys a) k = Some c \<and> \<not> k_revoked c \<and> now \<le> k_expiresAt c \<longrightarrow>
      fst (refreshApiKey a now k) = Some (k_key c, now + apiKeyTTL (options a))
      \<and> map_of (apiKeys (snd (refreshApiKey a now k))) k
          = Some (c\<lparr>k_expiresAt := now + apiKeyTTL (options a), k_lastUsed := Some now\<rparr>)
      \<and> (\<forall>k'. k' \<noteq> k \<longrightarrow>
            map_of (apiKeys (snd (refreshApiKey a now k))) k' = map_of (apiKeys a) k')
      \<and> guestTokens (snd (refreshApiKey a now k)) = guestTokens a
      \<and> options (snd (refreshApiKey a now k)) = options a)
   \<and> (\<not> (\<exists>c. map_of (apiKeys a) k = Some c \<and> \<not> k_revoked c \<and> now \<le> k_expiresAt c) \<longrightarrow>
        refreshApiKey a now k = (None, a))"
proof (intro conjI impI)
  assume v: "map_of (apiKeys a) k = Some c \<and> \<not> k_revoked c \<and> now \<le> k_expiresAt c"
  then have r: "refreshApiKey a now k =
     (Some (k_key c, now + apiKeyTTL (options a)),
      emit_auth (ApiKeyRefreshed (k_deviceId c) (k_key c) (now + apiKeyTTL (options a)))
        (a\<lparr>apiKeys := AList.update k
              (c\<lparr>k_expiresAt := now + apiKeyTTL (options a), k_lastUsed := Some now\<rparr>)
              (apiKeys a)\<rparr>))"
    using refreshApiKey_valid by blast
  show "fst (refreshApiKey a now k) = Some (k_key c, now + apiKeyTTL (options a))"
    by (simp add: r)
  show "map_of (apiKeys (snd (refreshApiKey a now k))) k
          = Some (c\<lparr>k_expiresAt := now + apiKeyTTL (options a), k_lastUsed := Some now\<rparr>)"
    by (simp add: r emit_auth_def AList.update_conv')
  show "\<forall>k'. k' \<noteq> k \<longrightarrow>
            map_of (apiKeys (snd (refreshApiKey a now k))) k' = map_of (apiKeys a) k'"
    by (simp add: r emit_auth_def AList.update_conv')
  show "guestTokens (snd (refreshApiKey a now k)) = guestTokens a"
    by (simp add: r emit_auth_def)
  show "options (snd (refreshApiKey a now k)) = options a"
    by (simp add: r emit_auth_def)
next
  assume "\<not> (\<exists>c. map_of (apiKeys a) k = Some c \<and> \<not> k_revoked c \<and> now \<le> k_expiresAt c)"
  then show "refreshApiKey a now k = (None, a)"
    by (rule refreshApiKey_invalid)
qed

text \<open>
  The theorem in the pairing scenario: \<open>K1\<close>, valid at time 2000, is refreshed to
  expire at 2000 plus thirty days; the unknown key \<open>K9\<close> is refused and the state is
  unchanged.
\<close>

theorem C5_refresh_extends_from_now_witness:
  "map_of (apiKeys auth2) ''K1'' = Some cred_K1 \<and> \<not> k_revoked cred_K1
   \<and> 2000 \<le> k_expiresAt cred_K1
   \<and> fst (refreshApiKey auth2 2000 ''K1'') = Some (''K1'', 2592002000)
   \<and> \<not> (\<exists>c. map_of (apiKeys auth2) ''K9'' = Some c \<and> \<not> k_revoked c \<and> 2000 \<le> k_expiresAt c)
   \<and> refreshApiKey auth2 2000 ''K9'' = (None, auth2)"
proof -
  have s: "apiKeys auth2 = [(''K1'', cred_K1)]" using auth2_state by simp
  have a: "map_of (apiKeys auth2) ''K1'' = Some cred_K1" by (simp add: s)
  have b: "\<not> k_revoked cred_K1" by (simp add: cred_K1_def)
  have c: "2000 \<le> k_expiresAt cred_K1" by (simp add: cred_K1_def)
  have t: "apiKeyTTL (options auth2) = 2592000000" by code_simp
  have k: "k_key cred_K1 = ''K1''" by (simp add: cred_K1_def)
  have d: "\<not> (\<exists>c. map_of (apiKeys auth2) ''K9'' = Some c \<and> \<not> k_revoked c
               \<and> 2000 \<le> k_expiresAt c)"
    by (simp add: s)
  from C5_refresh_extends_from_now [of auth2 "''K1''" cred_K1 2000] a b c
  have e: "fst (refreshApiKey auth2 2000 ''K1'') = Some (''K1'', 2592002000)"
    by (simp add: t k)
  from C5_refresh_extends_from_now [of auth2 "''K9''" cred_K1 2000] d
  have f: "refreshApiKey auth2 2000 ''K9'' = (None, auth2)" by blast
  from a b c d e f show ?thesis by blast
qed

text \<open>
  Claim C5 as stated fails in the pairing scenario. \<open>K1\<close> expires at 2592001000 (its
  creation time plus thirty days); refreshed at time 2000 it expires at 2592002000,
  one second later, where the claim asks for the prior expiry plus thirty days,
  5184001000: short by thirty days less one second.
\<close>

theorem C5_refresh_counterexample:
  "k_expiresAt cred_K1 = 2592001000
   \<and> apiKeyTTL (options auth2) = 2592000000
   \<and> map_of (apiKeys auth2) ''K1'' = Some cred_K1
   \<and> fst (refreshApiKey auth2 2000 ''K1'') = Some (''K1'', 2592002000)
   \<and> \<not> (2592002000 \<ge> k_expiresAt cred_K1 + apiKeyTTL (options auth2) - (1000::int))"
  by code_simp

lemma validateApiKey_cases:
  "validateApiKey a now k =
     (case map_of (apiKeys a) k of
        None \<Rightarrow> (False, a)
      | Some c \<Rightarrow>
          if k_revoked c then (False, a)
          else if now > k_expiresAt c then
            (False, emit_auth (ApiKeyRevoked (k_deviceId c) (k_key c) now)
               (a\<lparr>apiKeys := AList.update k (c\<lparr>k_revoked := True\<rparr>) (apiKeys a)\<rparr>))
          else (True, a\<lparr>apiKeys := AList.update k (c\<lparr>k_lastUsed := Some now\<rparr>) (apiKeys a)\<rparr>))"
  by (simp add: validateApiKey_def revokeApiKey_def split: option.splits)

text \<open>
  Claim C9, as the code has it. \<open>validateApiKey\<close> on an unknown or revoked key
  changes nothing. On a valid credential it succeeds and changes only \<open>lastUsed\<close>.
  On a credential that is expired and not yet revoked it fails and sets \<open>revoked\<close>
  (it calls \<open>revokeApiKey\<close>), changing no other field. In every case the other
  credentials, the enrollment tokens and the options are unchanged.
\<close>

theorem C9_validate_frame:
  "(map_of (apiKeys a) k = None \<longrightarrow> validateApiKey a now k = (False, a))
   \<and> (map_of (apiKeys a) k = Some c \<and> k_revoked c \<longrightarrow> validateApiKey a now k = (False, a))
   \<and> (map_of (apiKeys a) k = Some c \<and> \<not> k_revoked c \<and> now \<le> k_expiresAt c \<longrightarrow>
        fst (validateApiKey a now k)
        \<and> map_of (apiKeys (snd (validateApiKey a now k))) k = Some (c\<lparr>k_lastUsed := Some now\<rparr>))
   \<and> (map_of (apiKeys a) k = Some c \<and> \<not> k_revoked c \<and> now > k_expiresAt c \<longrightarrow>
        \<not> fst (validateApiKey a now k)
        \<and> map_of (apiKeys (snd (validateApiKey a now k))) k = Some (c\<lparr>k_revoked := True\<rparr>))
   \<and> (\<forall>k'. k' \<noteq> k \<longrightarrow>
         map_of (apiKeys (snd (validateApiKey a now k))) k' = map_of (apiKeys a) k')
   \<and> guestTokens (snd (validateApiKey a now k)) = guestTokens a
   \<and> options (snd (validateApiKey a now k)) = options a"
  by (auto simp: validateApiKey_cases emit_auth_def AList.update_conv' split: option.splits)

text \<open>
  The four cases of the theorem in the pairing scenario: the unknown key \<open>K9\<close>, the
  revoked \<open>K1\<close>, \<open>K1\<close> while valid (time 2000), and \<open>K1\<close> one millisecond after its
  expiry.
\<close>

theorem C9_validate_frame_witness:
  "map_of (apiKeys auth2) ''K9'' = None
   \<and> validateApiKey auth2 2000 ''K9'' = (False, auth2)
   \<and> map_of (apiKeys auth2_revoked) ''K1'' = Some (cred_K1\<lparr>k_revoked := True\<rparr>)
   \<and> validateApiKey auth2_revoked 2000 ''K1'' = (False, auth2_revoked)
   \<and> map_of (apiKeys auth2) ''K1'' = Some cred_K1 \<and> \<not> k_revoked cred_K1
   \<and> 2000 \<le> k_expiresAt cred_K1
   \<and> map_of (apiKeys (snd (validateApiKey auth2 2000 ''K1''))) ''K1''
       = Some (cred_K1\<lparr>k_lastUsed := Some 2000\<rparr>)
   \<and> 2592001001 > k_expiresAt cred_K1
   \<and> map_of (apiKeys (snd (validateApiKey auth2 2592001001 ''K1''))) ''K1''
       = Some (cred_K1\<lparr>k_revoked := True\<rparr>)"
proof -
  have s: "apiKeys auth2 = [(''K1'', cred_K1)]" using auth2_state by simp
  have n: "map_of (apiKeys auth2) ''K9'' = None" by (simp add: s)
  have a: "map_of (apiKeys auth2) ''K1'' = Some cred_K1" by (simp add: s)
  have r: "map_of (apiKeys auth2_revoked) ''K1'' = Some (cred_K1\<lparr>k_revoked := True\<rparr>)"
    by (simp add: auth2_revoked_def revokeApiKey_def s emit_auth_def)
  have r': "k_revoked (cred_K1\<lparr>k_revoked := True\<rparr>)" by simp
  have b: "\<not> k_revoked cred_K1" by (simp add: cred_K1_def)
  have c: "2000 \<le> k_expiresAt cred_K1" by (simp add: cred_K1_def)
  have d: "2592001001 > k_expiresAt cred_K1" by (simp add: cred_K1_def)
  from C9_validate_frame [of auth2 "''K9''" 2000 cred_K1] n
  have 1: "validateApiKey auth2 2000 ''K9'' = (False, auth2)" by blast
  from C9_validate_frame [of auth2_revoked "''K1''" 2000 "cred_K1\<lparr>k_revoked := True\<rparr>"] r r'
  have 2: "validateApiKey auth2_revoked 2000 ''K1'' = (False, auth2_revoked)" by blast
  from C9_validate_frame [of auth2 "''K1''" 2000 cred_K1] a b c
  have 3: "map_of (apiKeys (snd (validateApiKey auth2 2000 ''K1''))) ''K1''
       = Some (cred_K1\<lparr>k_lastUsed := Some 2000\<rparr>)" by blast
  from C9_validate_frame [of auth2 "''K1''" 2592001001 cred_K1] a b d
  have 4: "map_of (apiKeys (snd (validateApiKey auth2 2592001001 ''K1''))) ''K1''
       = Some (cred_K1\<lparr>k_revoked := True\<rparr>)" by blast
  from n 1 r 2 a b c 3 d 4 show ?thesis by blast
qed

text \<open>
  Claim C9 as stated fails: validating \<open>K1\<close> one millisecond after its expiry, with no
  revoke operation requested, flips its \<open>revoked\<close> flag from false to true and emits
  the \<open>apiKeyRevoked\<close> event.
\<close>

theorem C9_validate_revokes_counterexample:
  "map_of (apiKeys auth2) ''K1'' = Some cred_K1
   \<and> k_revoked cred_K1 = False
   \<and> fst (validateApiKey auth2 2592001001 ''K1'') = False
   \<and> map_option k_revoked
        (map_of (apiKeys (snd (validateApiKey auth2 2592001001 ''K1''))) ''K1'') = Some True
   \<and> last (auth_emitted (snd (validateApiKey auth2 2592001001 ''K1'')))
       = ApiKeyRevoked ''D1'' ''K1'' 2592001001"
  by code_simp


section \<open>Properties of the subscription handling\<close>

text \<open>
  Claim C1 in the viewing scenario. Client \<open>A\<close> is subscribed to session \<open>S1\<close>.
  Client \<open>B\<close> then opens a connection whose URL carries \<open>sessionId=S1\<close> and the
  valid key \<open>K2\<close>: \<open>handleConnection\<close> adds \<open>B\<close> to the subscriber set of \<open>S1\<close>
  without looking at the viewers already there (which \<open>handleSubscription\<close> does).
  Both clients are then attached to \<open>S1\<close>, both connected with open sockets, and the
  next record of the session is sent to both.
\<close>

theorem C1_connection_adds_second_viewer:
  "getSessionClients (sv_ws server_A) ''S1'' = [''A'']
   \<and> getSessionClients (sv_ws server_AB) ''S1'' = [''A'', ''B'']
   \<and> live_open (sv_ws server_AB) ''A'' \<and> live_open (sv_ws server_AB) ''B''
   \<and> map fst (frames_since server_AB
                 (file_changed server_AB 7000 log_path (Some (line_one @ nl))))
       = [''A'', ''B'', ''A'', ''B'']"
  by code_simp

lemma sendToClient_live:
  "sendToClient s c msg =
     (live_open s c, if live_open s c then s\<lparr>sent := sent s @ [(c, msg)]\<rparr> else s)"
  by (simp add: sendToClient_def live_open_def split: option.splits)

lemma live_open_sent_update [simp]: "live_open (s\<lparr>sent := x\<rparr>) = live_open s"
  by (rule ext) (simp add: live_open_def)

lemma live_open_emit_ws [simp]: "live_open (emit_ws e s) = live_open s"
  by (rule ext) (simp add: live_open_def emit_ws_def)

lemma sent_emit_ws [simp]: "sent (emit_ws e s) = sent s"
  by (simp add: emit_ws_def)

lemma removeClientFromSession_clients [simp]:
  "clients (removeClientFromSession s a b) = clients s"
  by (simp add: removeClientFromSession_def Let_def split: option.splits)

lemma removeClientFromSession_sent [simp]:
  "sent (removeClientFromSession s a b) = sent s"
  by (simp add: removeClientFromSession_def Let_def split: option.splits)

lemma live_open_removeClientFromSession [simp]:
  "live_open (removeClientFromSession s a b) = live_open s"
  by (rule ext) (simp add: live_open_def)

lemma addClientToSession_clients [simp]: "clients (addClientToSession s a b) = clients s"
  by (simp add: addClientToSession_def Let_def)

lemma addClientToSession_sent [simp]: "sent (addClientToSession s a b) = sent s"
  by (simp add: addClientToSession_def Let_def)

lemma sent_set_client [simp]: "sent (set_client s a c) = sent s"
  by (simp add: set_client_def)

lemma live_open_set_client:
  assumes "map_of (clients s) a = Some c0" and "c_open c = c_open c0"
  shows "live_open (set_client s a c) = live_open s"
  using assms by (auto simp: live_open_def set_client_def AList.update_conv' fun_eq_iff)

lemma takeover_one_sent:
  "sent (takeover_one now cid c sid s x) =
     sent s @ (if live_open s x
               then [(x, msg_session_taken_over now sid
                           (case c_apiKey c of None \<Rightarrow> ''Another device'' | Some k \<Rightarrow> k))]
               else [])"
  by (cases "map_of (clients s) x")
     (simp_all add: takeover_one_def Let_def sendToClient_live live_open_def)

lemma takeover_one_live: "live_open (takeover_one now cid c sid s x) = live_open s"
proof (cases "map_of (clients s) x")
  case None
  then show ?thesis by (simp add: takeover_one_def)
next
  case (Some ec)
  have "live_open (set_client
          (removeClientFromSession
             (snd (sendToClient s x
                (msg_session_taken_over now sid
                   (case c_apiKey c of None \<Rightarrow> ''Another device'' | Some k \<Rightarrow> k)))) x sid)
          x (ec\<lparr>c_sessionId := None\<rparr>)) = live_open s"
    using Some
    by (subst live_open_set_client [where ?c0.0 = ec])
       (simp_all add: sendToClient_live)
  with Some show ?thesis
    by (simp add: takeover_one_def Let_def sendToClient_live)
qed

lemma foldl_takeover:
  "sent (foldl (takeover_one now cid c sid) s xs) =
     sent s @ map (\<lambda>x. (x, msg_session_taken_over now sid
                            (case c_apiKey c of None \<Rightarrow> ''Another device'' | Some k \<Rightarrow> k)))
                (filter (live_open s) xs)
   \<and> live_open (foldl (takeover_one now cid c sid) s xs) = live_open s"
proof (induction xs arbitrary: s)
  case Nil
  show ?case by simp
next
  case (Cons x xs)
  show ?case
    using Cons.IH [of "takeover_one now cid c sid s x"]
    by (simp add: takeover_one_sent takeover_one_live)
qed

lemma subscribe_new_client_sent:
  "sent (subscribe_new_client s now cid sid force tookOver) =
     sent s @ (if live_open s cid then [(cid, msg_subscribed now sid tookOver)] else [])"
proof (cases "map_of (clients s) cid")
  case None
  then show ?thesis
    by (simp add: subscribe_new_client_def Let_def sendToClient_live live_open_def
          sendToClient_def)
next
  case (Some c0)
  have l: "live_open (set_client (addClientToSession s cid sid) cid
             (c0\<lparr>c_sessionId := Some sid\<rparr>)) = live_open s"
    using Some
    by (subst live_open_set_client [where ?c0.0 = c0]) (simp_all add: live_open_def fun_eq_iff)
  from Some l show ?thesis
    by (simp add: subscribe_new_client_def Let_def sendToClient_live)
qed

text \<open>
  Claim C10. Let the subscribing client be connected, authenticated, and hold the key
  \<open>K\<close> in its \<open>apiKey\<close> field (the key it authenticated with), and let the session
  have a nonempty set of existing viewers. A \<open>subscribe\<close> with \<open>forceTakeover\<close>
  then writes, in the order of that set, one \<open>session_taken_over\<close> frame to every
  existing viewer that is connected with an open socket, each with \<open>newViewer\<close> equal
  to \<open>K\<close> itself, and after them the \<open>subscribed\<close> frame to the subscribing client;
  it writes nothing else. The frame is of type \<open>session_taken_over\<close>.
\<close>

theorem C10_takeover_notification_carries_api_key:
  assumes "map_of (clients s) cid = Some c"
    and "c_authenticated c"
    and "c_apiKey c = Some K"
    and "sid \<noteq> []"
    and "map_of (sessionClients s) sid = Some (e # es)"
  shows "\<exists>tookOver.
     sent (handleSubscription s now cid \<lparr> p_sessionId = Some sid, p_forceTakeover = True \<rparr>)
       = sent s
         @ map (\<lambda>x. (x, msg_session_taken_over now sid K)) (filter (live_open s) (e # es))
         @ (if c_open c then [(cid, msg_subscribed now sid tookOver)] else [])
     \<and> w_type (msg_session_taken_over now sid K) = ''session_taken_over''
     \<and> map_of (w_payload (msg_session_taken_over now sid K)) ''newViewer'' = Some (PStr K)"
proof -
  let ?s1 = "foldl (takeover_one now cid c sid) s (e # es)"
  have h: "handleSubscription s now cid \<lparr> p_sessionId = Some sid, p_forceTakeover = True \<rparr>
      = subscribe_new_client ?s1 now cid sid True
          (Some (map_of (sessionClients ?s1) sid \<noteq> None))"
    using assms by (simp add: handleSubscription_def Let_def)
  have f: "sent ?s1 = sent s
      @ map (\<lambda>x. (x, msg_session_taken_over now sid K)) (filter (live_open s) (e # es))"
    and l: "live_open ?s1 = live_open s"
    using foldl_takeover [of now cid c sid s "e # es"] assms(3) by simp_all
  have o: "live_open s cid = c_open c"
    using assms(1) by (simp add: live_open_def)
  have "sent (handleSubscription s now cid \<lparr> p_sessionId = Some sid, p_forceTakeover = True \<rparr>)
       = sent s
         @ map (\<lambda>x. (x, msg_session_taken_over now sid K)) (filter (live_open s) (e # es))
         @ (if c_open c
            then [(cid, msg_subscribed now sid (Some (map_of (sessionClients ?s1) sid \<noteq> None)))]
            else [])"
    by (simp only: h subscribe_new_client_sent f l o append_assoc)
  moreover have "w_type (msg_session_taken_over now sid K) = ''session_taken_over''"
    by (simp add: msg_session_taken_over_def)
  moreover have "map_of (w_payload (msg_session_taken_over now sid K)) ''newViewer''
      = Some (PStr K)"
    by (simp add: msg_session_taken_over_def)
  ultimately show ?thesis by blast
qed

lemma handleAuthentication_sets_key:
  assumes "map_of (clients s) cid = Some c"
    and "fst (ws_validateApiKey s now (Some K))"
  shows "map_option (\<lambda>c. (c_authenticated c, c_apiKey c))
           (map_of (clients (handleAuthentication s now cid (Some K))) cid)
         = Some (True, Some K)"
proof -
  obtain ok s1 where v: "ws_validateApiKey s now (Some K) = (ok, s1)"
    by (cases "ws_validateApiKey s now (Some K)")
  with assms(2) have ok: "ok" by simp
  show ?thesis
    using assms(1) v ok
    by (simp add: handleAuthentication_def Let_def sendToClient_live emit_ws_def
          set_client_def AList.update_conv')
qed

text \<open>
  The theorem in the viewing scenario: \<open>B\<close> has authenticated with \<open>K2\<close> and takes
  session \<open>S1\<close> over from \<open>A\<close>; the frame written to \<open>A\<close> names the new viewer
  \<open>K2\<close>.
\<close>

theorem C10_takeover_notification_witness:
  "map_option (\<lambda>c. (c_authenticated c, c_apiKey c, c_open c))
       (map_of (clients (sv_ws server_B_auth)) ''B'') = Some (True, Some ''K2'', True)
   \<and> map_of (sessionClients (sv_ws server_B_auth)) ''S1'' = Some [''A'']
   \<and> (\<exists>tookOver.
        sent (handleSubscription (sv_ws server_B_auth) 6002 ''B'' (subscribe_S1 True))
          = sent (sv_ws server_B_auth)
            @ [(''A'', msg_session_taken_over 6002 ''S1'' ''K2''),
               (''B'', msg_subscribed 6002 ''S1'' tookOver)])"
proof -
  obtain c where c: "map_of (clients (sv_ws server_B_auth)) ''B'' = Some c"
    and c1: "c_authenticated c" and c2: "c_apiKey c = Some ''K2''" and c3: "c_open c"
  proof -
    have "map_of (clients (sv_ws server_B_auth)) ''B''
        = Some \<lparr> c_id = ''B'', c_open = True, c_sessionId = None, c_lastPing = 6000,
                 c_authenticated = True, c_apiKey = Some ''K2'', c_deviceId = None \<rparr>"
      by code_simp
    then show ?thesis using that by simp
  qed
  have e: "map_of (sessionClients (sv_ws server_B_auth)) ''S1'' = Some [''A'']"
    by code_simp
  have a: "live_open (sv_ws server_B_auth) ''A''" by code_simp
  have n: "''S1'' \<noteq> []" by simp
  from C10_takeover_notification_carries_api_key [OF c c1 c2 n e, of 6002] a c3
  have "\<exists>tookOver.
        sent (handleSubscription (sv_ws server_B_auth) 6002 ''B'' (subscribe_S1 True))
          = sent (sv_ws server_B_auth)
            @ [(''A'', msg_session_taken_over 6002 ''S1'' ''K2''),
               (''B'', msg_subscribed 6002 ''S1'' tookOver)]"
    by (auto simp: subscribe_S1_def)
  with c c1 c2 c3 e show ?thesis by simp
qed


section \<open>Properties of the session state\<close>

lemma broadcast_loop_sent:
  "snd (broadcast_loop s msg cs) =
     s\<lparr>sent := sent s @ map (\<lambda>c. (c, msg)) (filter (live_open s) cs)\<rparr>"
proof (induction cs arbitrary: s)
  case Nil
  show ?case by simp
next
  case (Cons c cs)
  show ?case
    using Cons.IH [of "s\<lparr>sent := sent s @ [(c, msg)]\<rparr>"] Cons.IH [of s]
    by (simp add: sendToClient_live split_beta Let_def)
qed

lemma broadcastToSession_state:
  "snd (broadcastToSession s now sid message) =
     s\<lparr>sent := sent s @ session_frames s now sid message\<rparr>"
  by (cases sid)
     (simp_all add: broadcastToSession_def session_frames_def getSessionClients_def
        broadcast_loop_sent split: option.splits)

lemma session_frames_sent_update [simp]:
  "session_frames (s\<lparr>sent := x\<rparr>) now sid message = session_frames s now sid message"
  by (simp add: session_frames_def getSessionClients_def split: jsval.splits)

lemma handleNewMessage_sent:
  "sent (snd (handleNewMessage m s now message)) =
     sent s
     @ session_frames s now (m_sessionId message) (record_message message False)
     @ session_frames s now (m_sessionId message)
         (state_message now (m_sessionId message) [message])"
  by (simp add: handleNewMessage_def Let_def split_beta broadcastSessionState_def
        broadcastToSession_state)

lemma handleSessionInactive_sent:
  "sent (snd (handleSessionInactive m s now info reason la)) =
     sent s @ session_frames s now (JStr (si_sessionId info))
                (inactivity_message now info reason la)"
  by (simp add: handleSessionInactive_def Let_def broadcastToSession_state)

lemma extractSessionInfo_lastActivity [simp]:
  "extractSessionInfo (st\<lparr>lastActivity := x\<rparr>) p = extractSessionInfo st p"
  by (simp add: extractSessionInfo_def)

lemma inactivity_loop_events:
  "snd (inactivity_loop st now xs) =
     map (\<lambda>(p, la). SessionInactive p (extractSessionInfo st p) la)
       (filter (\<lambda>(p, la). now - la > inactiveThreshold) xs)"
proof (induction xs arbitrary: st)
  case Nil
  show ?case by simp
next
  case (Cons x xs)
  obtain p la where x: "x = (p, la)" by (cases x)
  show ?case
    using Cons.IH [of st]
      Cons.IH [of "st\<lparr>lastActivity := AList.delete p (lastActivity st)\<rparr>"]
    by (simp add: x split_beta Let_def)
qed

text \<open>
  The state message that follows a new record is derived from that record alone:
  \<open>working\<close> when its \<open>type\<close> is \<open>user\<close>, \<open>waiting\<close> otherwise, and never
  \<open>idle\<close>. \<open>handleNewMessage\<close> is the only caller of \<open>broadcastSessionState\<close>.
\<close>

lemma handleNewMessage_state:
  "sent (snd (handleNewMessage m s now message)) =
     sent s
     @ session_frames s now (m_sessionId message) (record_message message False)
     @ session_frames s now (m_sessionId message)
         (state_message now (m_sessionId message) [message])
   \<and> map_of (sm_data (state_message now (m_sessionId message) [message])) ''state''
       = Some (PStr (if m_type message = JStr ''user'' then ''working'' else ''waiting''))
   \<and> session_state [message] \<noteq> ''idle''"
  by (simp add: handleNewMessage_sent state_message_def session_state_def)

lemma inactivityTick_events:
  "snd (inactivityTick st now) =
     map (\<lambda>(p, la). SessionInactive p (extractSessionInfo st p) la)
       (filter (\<lambda>(p, la). now - la > 600000) (lastActivity st))"
  using inactivity_loop_events [of st now "lastActivity st"]
  by (simp add: inactivityTick_def inactiveThreshold_def)

text \<open>
  Claim C6 in the viewing scenario, with every timer of the server running. The last
  record of \<open>S1\<close> is an assistant record written at \<open>t0 = 59000\<close>, and viewer \<open>A\<close>
  receives the state \<open>waiting\<close>. Up to nine minutes and one second after \<open>t0\<close> the
  only frame written to \<open>A\<close> is the \<open>timeout\<close> message of the manager's cleanup
  (the first cleanup more than five minutes after \<open>t0\<close>, at time 360000). At ten
  minutes and one second after \<open>t0\<close> the inactivity check writes one frame to \<open>A\<close>:
  a session message of type \<open>inactivity\<close>. Neither carries a state: no state
  \<open>idle\<close> is sent. The user record written afterwards gives \<open>working\<close>. Each
  frame is shown by its client, its time, and the \<open>type\<close> and \<open>data\<close> of its
  session message.
\<close>

theorem C6_idle_state_never_sent:
  "map (\<lambda>(c, f). (c, w_timestamp f, map_of (w_payload f) ''type'', map_of (w_payload f) ''data''))
       (filter (\<lambda>(c, f). w_type f = ''session_message'') (frames_since server_A server_rec))
     = [(''A'', 59000, Some (PStr ''message''),
          Some (PObj [(''messageType'', PJs (JStr ''assistant'')),
                      (''content'', PJs (JStr ''two'')),
                      (''parentUuid'', PJs (JStr ''''))])),
        (''A'', 59000, Some (PStr ''state''),
          Some (PObj [(''state'', PStr ''waiting''),
                      (''lastActivity'', PJs (JStr ''2025-09-14T15:04:36.000Z''))]))]
   \<and> map (\<lambda>(c, f). (c, w_timestamp f, map_of (w_payload f) ''type'', map_of (w_payload f) ''data''))
       (frames_since server_rec server_9min)
     = [(''A'', 360000, Some (PStr ''timeout''),
          Some (PObj [(''reason'', PStr ''Session inactive for too long'')]))]
   \<and> map (\<lambda>(c, f). (c, w_timestamp f, map_of (w_payload f) ''type'', map_of (w_payload f) ''data''))
       (frames_since server_9min server_10min)
     = [(''A'', 660000, Some (PStr ''inactivity''),
          Some (PObj [(''reason'', PStr ''Session inactive for more than 10 minutes''),
                      (''lastActivity'', PTime 59000),
                      (''projectPath'', PStr ''proj'')]))]
   \<and> map (\<lambda>(c, f). (c, w_timestamp f, map_of (w_payload f) ''type'', map_of (w_payload f) ''data''))
       (frames_since server_10min server_user)
     = [(''A'', 700000, Some (PStr ''message''),
          Some (PObj [(''messageType'', PJs (JStr ''user'')),
                      (''content'', PJs (JStr ''three'')),
                      (''parentUuid'', PJs (JStr ''''))])),
        (''A'', 700000, Some (PStr ''state''),
          Some (PObj [(''state'', PStr ''working''),
                      (''lastActivity'', PJs (JStr ''2025-09-14T15:05:00.000Z''))]))]
   \<and> live_open (sv_ws server_10min) ''A''
   \<and> getSessionClients (sv_ws server_10min) ''S1'' = [''A'']"
  by code_simp

end
